theory Spec2Isabelle
  imports Complex_Main
begin

section \<open>Region selector of the world editor (RegionSelector.jsx)\<close>

subsection \<open>JavaScript numbers\<close>

text \<open>
  The component keeps its selection in React state. Its coordinates are JavaScript
  numbers, that is binary64 values. The model covers the values that occur when the
  inputs are block coordinates: integers that binary64 represents (\<open>JNum\<close>), the two
  infinities and NaN. \<open>Math.round\<close> and \<open>Math.floor\<close> return such values, and sums
  and differences of such values are such values again. Fractions are not covered, and the
  sign of zero is not distinguished. \<open>MAX_IMPORT_SIZE_X\<close>, \<open>MAX_IMPORT_SIZE_Y\<close> and
  \<open>MAX_IMPORT_SIZE_Z\<close> are imported from \<open>constants/terrain\<close>; their values are
  parameters of the model.
\<close>

datatype jsnum = JNum int | PosInf | NegInf | JNaN

text \<open>
  Rounding of an exact integer result to binary64, to nearest and ties to even: below
  \<open>2\<^sup>5\<^sup>3\<close> every integer is representable; above, the 53 leading bits are kept
  (\<open>bitlen\<close> counts the bits), and a result of \<open>2\<^sup>1\<^sup>0\<^sup>2\<^sup>4\<close> or more is an infinity.
\<close>

fun bitlen :: "nat \<Rightarrow> nat" where
  "bitlen n = (if n = 0 then 0 else Suc (bitlen (n div 2)))"

declare bitlen.simps [simp del]

definition round53 :: "nat \<Rightarrow> nat" where
  "round53 m =
     (if m < 2 ^ 53 then m
      else let s = bitlen m - 53;
               q = m div 2 ^ s;
               r = m mod 2 ^ s;
               h = 2 ^ s div 2
           in (if r > h \<or> (r = h \<and> odd q) then q + 1 else q) * 2 ^ s)"

definition r64 :: "int \<Rightarrow> jsnum" where
  "r64 n =
     (if \<bar>n\<bar> < 2 ^ 53 then JNum n
      else let m = round53 (nat \<bar>n\<bar>)
           in if m \<ge> 2 ^ 1024 then (if n < 0 then NegInf else PosInf)
              else JNum (if n < 0 then - int m else int m))"

text \<open>
  The operators the component uses: \<open>+\<close> and \<open>-\<close> (a difference is the sum with the
  negated operand), the comparisons \<open><\<close>, \<open><=\<close>, \<open>>\<close>, \<open>>=\<close>, \<open>===\<close> and \<open>!==\<close>
  (every comparison with NaN is false, except \<open>!==\<close>), \<open>Math.min\<close>,
  \<open>Math.floor(x / 2)\<close> (halving is exact in binary64), \<open>x % 2 === 0\<close>, and
  \<open>v || d\<close> on a number that may be missing.
\<close>

fun js_neg :: "jsnum \<Rightarrow> jsnum" where
  "js_neg (JNum a) = JNum (- a)"
| "js_neg PosInf = NegInf"
| "js_neg NegInf = PosInf"
| "js_neg JNaN = JNaN"

fun js_add :: "jsnum \<Rightarrow> jsnum \<Rightarrow> jsnum" where
  "js_add (JNum a) (JNum b) = r64 (a + b)"
| "js_add JNaN y = JNaN"
| "js_add x JNaN = JNaN"
| "js_add PosInf NegInf = JNaN"
| "js_add NegInf PosInf = JNaN"
| "js_add PosInf y = PosInf"
| "js_add x PosInf = PosInf"
| "js_add NegInf y = NegInf"
| "js_add x NegInf = NegInf"

definition js_sub :: "jsnum \<Rightarrow> jsnum \<Rightarrow> jsnum" where
  "js_sub x y = js_add x (js_neg y)"

fun js_lt :: "jsnum \<Rightarrow> jsnum \<Rightarrow> bool" where
  "js_lt (JNum a) (JNum b) = (a < b)"
| "js_lt JNaN y = False"
| "js_lt x JNaN = False"
| "js_lt x NegInf = False"
| "js_lt NegInf y = True"
| "js_lt PosInf y = False"
| "js_lt x PosInf = True"

fun js_eq :: "jsnum \<Rightarrow> jsnum \<Rightarrow> bool" where
  "js_eq (JNum a) (JNum b) = (a = b)"
| "js_eq PosInf PosInf = True"
| "js_eq NegInf NegInf = True"
| "js_eq x y = False"

definition js_le :: "jsnum \<Rightarrow> jsnum \<Rightarrow> bool" where
  "js_le x y = (js_lt x y \<or> js_eq x y)"

definition js_gt :: "jsnum \<Rightarrow> jsnum \<Rightarrow> bool" where
  "js_gt x y = js_lt y x"

definition js_ge :: "jsnum \<Rightarrow> jsnum \<Rightarrow> bool" where
  "js_ge x y = js_le y x"

definition js_ne :: "jsnum \<Rightarrow> jsnum \<Rightarrow> bool" where
  "js_ne x y = (if js_eq x y then False else True)"

definition js_min :: "jsnum \<Rightarrow> jsnum \<Rightarrow> jsnum" where
  "js_min x y = (if x = JNaN then JNaN else if y = JNaN then JNaN else if js_lt y x then y else x)"

definition floor_half :: "jsnum \<Rightarrow> jsnum" where
  "floor_half x = (case x of JNum n \<Rightarrow> JNum (n div 2) | PosInf \<Rightarrow> PosInf | NegInf \<Rightarrow> NegInf | JNaN \<Rightarrow> JNaN)"

definition is_even :: "jsnum \<Rightarrow> bool" where
  "is_even x = (case x of JNum n \<Rightarrow> even n | PosInf \<Rightarrow> False | NegInf \<Rightarrow> False | JNaN \<Rightarrow> False)"

definition or_default :: "jsnum option \<Rightarrow> jsnum \<Rightarrow> jsnum" where
  "or_default v d =
     (case v of None \<Rightarrow> d
      | Some x \<Rightarrow> if x = JNum 0 then d else if x = JNaN then d else x)"

subsection \<open>State of the component\<close>

record terrain_constants =
  MAX_IMPORT_SIZE_X :: jsnum
  MAX_IMPORT_SIZE_Y :: jsnum
  MAX_IMPORT_SIZE_Z :: jsnum

record bounds =
  minX :: jsnum
  minY :: jsnum
  minZ :: jsnum
  maxX :: jsnum
  maxY :: jsnum
  maxZ :: jsnum

record vec3 =
  vx :: jsnum
  vy :: jsnum
  vz :: jsnum

record region_selector =
  rs_bounds :: bounds
  rs_size :: vec3
  rs_center :: vec3
  rs_offsets :: "jsnum \<times> jsnum"
  dragOperation :: "string option"
  dragStartCoords :: vec3
  dragStartBounds :: "bounds option"
  isDragging :: bool
  isValid :: bool
  prevBoundsRef :: "bounds option"
  prevOffsetsRef :: "(jsnum \<times> jsnum) option"

subsection \<open>Effects and handlers\<close>

text \<open>The expression \<open>max - min + 1\<close> that gives the width, height or depth.\<close>

definition extent :: "jsnum \<Rightarrow> jsnum \<Rightarrow> jsnum" where
  "extent lo hi = js_add (js_sub hi lo) (JNum 1)"

text \<open>The object literal \<open>trimmedBounds\<close> built by the effect that reports the region.\<close>

definition trimmedBounds :: "terrain_constants \<Rightarrow> bounds \<Rightarrow> bounds" where
  "trimmedBounds c b =
     \<lparr> minX = minX b,
       minY = minY b,
       minZ = minZ b,
       maxX = js_min (maxX b) (js_sub (js_add (minX b) (MAX_IMPORT_SIZE_X c)) (JNum 1)),
       maxY = js_min (maxY b) (js_sub (js_add (minY b) (MAX_IMPORT_SIZE_Y c)) (JNum 1)),
       maxZ = js_min (maxZ b) (js_sub (js_add (minZ b) (MAX_IMPORT_SIZE_Z c)) (JNum 1)) \<rparr>"

text \<open>
  The effect that reports the region. It returns early while \<open>isValid\<close> is false.
  Otherwise, when the trimmed bounds differ from the ones reported last
  (\<open>prevBoundsRef\<close>) or the offsets changed, it stores both in the refs, calls
  \<open>setSize\<close> with the trimmed extents if one of them differs from the current width,
  height or depth, and passes the trimmed bounds with the offsets to
  \<open>onRegionSelected\<close>. The result is the new state and the argument of the callback,
  if it was called.
\<close>

definition bounds_differ :: "bounds \<Rightarrow> bounds \<Rightarrow> bool" where
  "bounds_differ p t =
     (js_ne (minX p) (minX t) \<or> js_ne (minY p) (minY t) \<or> js_ne (minZ p) (minZ t) \<or>
      js_ne (maxX p) (maxX t) \<or> js_ne (maxY p) (maxY t) \<or> js_ne (maxZ p) (maxZ t))"

definition region_effect ::
  "terrain_constants \<Rightarrow> region_selector \<Rightarrow>
   region_selector \<times> (bounds \<times> jsnum \<times> jsnum) option" where
  "region_effect c s =
     (if isValid s
      then let b = rs_bounds s;
               width = extent (minX b) (maxX b);
               height = extent (minY b) (maxY b);
               depth = extent (minZ b) (maxZ b);
               t = trimmedBounds c b;
               prevOffsets = (case prevOffsetsRef s of None \<Rightarrow> (JNum 0, JNum 0) | Some po \<Rightarrow> po);
               boundsChanged = (case prevBoundsRef s of None \<Rightarrow> True | Some p \<Rightarrow> bounds_differ p t);
               offsetsChanged = (js_ne (fst prevOffsets) (fst (rs_offsets s)) \<or>
                                 js_ne (snd prevOffsets) (snd (rs_offsets s)))
           in if boundsChanged \<or> offsetsChanged
              then let s1 = s\<lparr>prevBoundsRef := Some t, prevOffsetsRef := Some (rs_offsets s)\<rparr>;
                       tw = extent (minX t) (maxX t);
                       th = extent (minY t) (maxY t);
                       td = extent (minZ t) (maxZ t);
                       s2 = (if js_ne tw width \<or> js_ne th height \<or> js_ne td depth
                             then s1\<lparr>rs_size := \<lparr> vx = tw, vy = th, vz = td \<rparr>\<rparr>
                             else s1)
                   in (s2, Some (t, rs_offsets s))
              else (s, None)
      else (s, None))"

text \<open>
  The effect on \<open>size\<close> and \<open>center\<close>, which rebuilds the bounds around the center
  after every change of either. \<open>worldMaxY\<close> is \<open>worldData?.bounds?.maxY\<close>.
\<close>

definition parity_step :: "jsnum \<Rightarrow> jsnum" where
  "parity_step sz = (if is_even sz then JNum (- 1) else JNum 0)"

definition size_center_effect :: "jsnum option \<Rightarrow> region_selector \<Rightarrow> region_selector" where
  "size_center_effect worldMaxY s =
     (let size = rs_size s;
          center = rs_center s;
          halfX = floor_half (vx size);
          halfZ = floor_half (vz size)
      in s\<lparr>rs_bounds :=
           \<lparr> minX = js_sub (vx center) halfX,
             minY = js_sub (vy center) (floor_half (vy size)),
             minZ = js_sub (vz center) halfZ,
             maxX = js_add (js_add (vx center) halfX) (parity_step (vx size)),
             maxY = js_min (or_default worldMaxY (JNum 255))
                      (js_add (js_add (vy center) (floor_half (vy size))) (parity_step (vy size))),
             maxZ = js_add (js_add (vz center) halfZ) (parity_step (vz size)) \<rparr>\<rparr>)"

text \<open>The effect that sets \<open>isValid\<close>.\<close>

definition valid_effect :: "region_selector \<Rightarrow> region_selector" where
  "valid_effect s =
     (let b = rs_bounds s
      in s\<lparr>isValid := (js_gt (extent (minX b) (maxX b)) (JNum 0) \<and>
                        js_gt (extent (minY b) (maxY b)) (JNum 0) \<and>
                        js_gt (extent (minZ b) (maxZ b)) (JNum 0))\<rparr>)"

text \<open>\<open>dragOperation.includes("w")\<close> on a one- or two-letter direction string.\<close>

definition str_includes :: "string \<Rightarrow> char \<Rightarrow> bool" where
  "str_includes op ch = (ch \<in> set op)"

text \<open>The \<open>switch (dragOperation)\<close> of \<open>handleDragMove\<close>; it has no default branch.\<close>

definition drag_switch :: "string \<Rightarrow> bounds \<Rightarrow> jsnum \<Rightarrow> jsnum \<Rightarrow> bounds \<Rightarrow> bounds" where
  "drag_switch op sb deltaX deltaZ b =
     (if op = ''n'' then b\<lparr>minZ := js_add (minZ sb) deltaZ\<rparr>
      else if op = ''s'' then b\<lparr>maxZ := js_add (maxZ sb) deltaZ\<rparr>
      else if op = ''e'' then b\<lparr>maxX := js_add (maxX sb) deltaX\<rparr>
      else if op = ''w'' then b\<lparr>minX := js_add (minX sb) deltaX\<rparr>
      else if op = ''ne'' then b\<lparr>minZ := js_add (minZ sb) deltaZ, maxX := js_add (maxX sb) deltaX\<rparr>
      else if op = ''nw'' then b\<lparr>minZ := js_add (minZ sb) deltaZ, minX := js_add (minX sb) deltaX\<rparr>
      else if op = ''se'' then b\<lparr>maxZ := js_add (maxZ sb) deltaZ, maxX := js_add (maxX sb) deltaX\<rparr>
      else if op = ''sw'' then b\<lparr>maxZ := js_add (maxZ sb) deltaZ, minX := js_add (minX sb) deltaX\<rparr>
      else b)"

text \<open>The two repairs that keep \<open>min < max\<close> on the horizontal axes.\<close>

definition fix_order :: "string \<Rightarrow> bounds \<Rightarrow> bounds" where
  "fix_order op b =
     (let b1 = (if js_ge (minX b) (maxX b)
                then (if str_includes op CHR ''w'' then b\<lparr>minX := js_sub (maxX b) (JNum 1)\<rparr>
                      else b\<lparr>maxX := js_add (minX b) (JNum 1)\<rparr>)
                else b)
      in if js_ge (minZ b1) (maxZ b1)
         then (if str_includes op CHR ''n'' then b1\<lparr>minZ := js_sub (maxZ b1) (JNum 1)\<rparr>
               else b1\<lparr>maxZ := js_add (minZ b1) (JNum 1)\<rparr>)
         else b1)"

text \<open>
  The two size limits. \<open>newSize.x\<close> and \<open>newSize.z\<close> are computed once, before the
  limits are applied; limiting X leaves the Z coordinates as they are.
\<close>

definition limit_size :: "terrain_constants \<Rightarrow> string \<Rightarrow> bounds \<Rightarrow> bounds" where
  "limit_size c op b =
     (let b1 = (if js_gt (extent (minX b) (maxX b)) (MAX_IMPORT_SIZE_X c)
                then (if str_includes op CHR ''w''
                      then b\<lparr>minX := js_add (js_sub (maxX b) (MAX_IMPORT_SIZE_X c)) (JNum 1)\<rparr>
                      else b\<lparr>maxX := js_sub (js_add (minX b) (MAX_IMPORT_SIZE_X c)) (JNum 1)\<rparr>)
                else b)
      in if js_gt (extent (minZ b) (maxZ b)) (MAX_IMPORT_SIZE_Z c)
         then (if str_includes op CHR ''n''
               then b1\<lparr>minZ := js_add (js_sub (maxZ b1) (MAX_IMPORT_SIZE_Z c)) (JNum 1)\<rparr>
               else b1\<lparr>maxZ := js_sub (js_add (minZ b1) (MAX_IMPORT_SIZE_Z c)) (JNum 1)\<rparr>)
         else b1)"

definition drag_size :: "terrain_constants \<Rightarrow> bounds \<Rightarrow> vec3 \<Rightarrow> vec3" where
  "drag_size c b sz =
     sz\<lparr> vx := (if js_gt (extent (minX b) (maxX b)) (MAX_IMPORT_SIZE_X c)
                 then MAX_IMPORT_SIZE_X c else extent (minX b) (maxX b)),
          vz := (if js_gt (extent (minZ b) (maxZ b)) (MAX_IMPORT_SIZE_Z c)
                 then MAX_IMPORT_SIZE_Z c else extent (minZ b) (maxZ b)) \<rparr>"

text \<open>
  \<open>handleDragMove\<close>. The argument \<open>point\<close> is the pointer position after
  \<open>svgCoordinatesFromEvent\<close> and \<open>Math.round\<close> (\<open>None\<close> when the conversion returns
  \<open>null\<close>). The handler returns at once when no drag is in progress: \<open>!dragOperation\<close>
  holds for \<open>null\<close> and for the empty string. Its three setters are batched; the
  effect on size and center runs after them.
\<close>

definition handleDragMove ::
  "terrain_constants \<Rightarrow> (jsnum \<times> jsnum) option \<Rightarrow> region_selector \<Rightarrow> region_selector" where
  "handleDragMove c point s =
     (case dragOperation s of
        None \<Rightarrow> s
      | Some op \<Rightarrow>
          if op = [] then s
          else (case dragStartBounds s of
                  None \<Rightarrow> s
                | Some sb \<Rightarrow>
                    let s1 = s\<lparr>isDragging := True\<rparr>
                    in (case point of
                          None \<Rightarrow> s1
                        | Some (currentX, currentZ) \<Rightarrow>
                            let deltaX = js_sub currentX (vx (dragStartCoords s));
                                deltaZ = js_sub currentZ (vz (dragStartCoords s));
                                b1 = drag_switch op sb deltaX deltaZ (rs_bounds s);
                                b2 = fix_order op b1;
                                newBounds = limit_size c op b2;
                                newSize = drag_size c b2 (rs_size s);
                                newCenter = (rs_center s)
                                  \<lparr> vx := floor_half (js_add (minX newBounds) (maxX newBounds)),
                                    vz := floor_half (js_add (minZ newBounds) (maxZ newBounds)) \<rparr>
                            in s1\<lparr> rs_bounds := newBounds, rs_size := newSize,
                                    rs_center := newCenter \<rparr>)))"

text \<open>\<open>handleDragStart\<close>, which arms a drag in one of the eight directions.\<close>

definition handleDragStart ::
  "(jsnum \<times> jsnum) option \<Rightarrow> string \<Rightarrow> region_selector \<Rightarrow> region_selector" where
  "handleDragStart point direction s =
     (case point of
        None \<Rightarrow> s
      | Some (px, pz) \<Rightarrow>
          s\<lparr> dragOperation := Some direction,
             isDragging := True,
             dragStartCoords := (dragStartCoords s)\<lparr>vx := px, vz := pz\<rparr>,
             dragStartBounds := Some (rs_bounds s) \<rparr>)"

text \<open>The property of the horizontal extent that a drag step is to establish.\<close>

definition horizontal_ok :: "terrain_constants \<Rightarrow> bounds \<Rightarrow> bool" where
  "horizontal_ok c b =
     (js_lt (minX b) (maxX b) \<and> js_lt (minZ b) (maxZ b) \<and>
      js_le (extent (minX b) (maxX b)) (MAX_IMPORT_SIZE_X c) \<and>
      js_le (extent (minZ b) (maxZ b)) (MAX_IMPORT_SIZE_Z c))"

text \<open>
  Numbers that are integers of bounded magnitude. Sums and differences of a few numbers
  of magnitude at most \<open>2\<^sup>4\<^sup>9\<close> stay below \<open>2\<^sup>5\<^sup>3\<close>, where binary64 is exact.
\<close>

definition inside :: "int \<Rightarrow> jsnum \<Rightarrow> bool" where
  "inside k x = (case x of JNum n \<Rightarrow> - k \<le> n \<and> n \<le> k | PosInf \<Rightarrow> False | NegInf \<Rightarrow> False | JNaN \<Rightarrow> False)"

definition xz_inside :: "int \<Rightarrow> bounds \<Rightarrow> bool" where
  "xz_inside k b = (inside k (minX b) \<and> inside k (maxX b) \<and> inside k (minZ b) \<and> inside k (maxZ b))"

text \<open>
  A drag is in progress and the pointer has a position; the state, the pointer and the
  limits hold integers of magnitude at most \<open>2\<^sup>4\<^sup>9\<close>, the limits being at least 2.
\<close>

definition drag_active :: "(jsnum \<times> jsnum) option \<Rightarrow> region_selector \<Rightarrow> bool" where
  "drag_active point s =
     (dragOperation s \<noteq> None \<and> dragOperation s \<noteq> Some [] \<and>
      dragStartBounds s \<noteq> None \<and> point \<noteq> None)"

definition small_drag :: "(jsnum \<times> jsnum) option \<Rightarrow> region_selector \<Rightarrow> bool" where
  "small_drag point s =
     (xz_inside (2 ^ 49) (rs_bounds s) \<and>
      (case dragStartBounds s of None \<Rightarrow> False | Some sb \<Rightarrow> xz_inside (2 ^ 49) sb) \<and>
      inside (2 ^ 49) (vx (dragStartCoords s)) \<and> inside (2 ^ 49) (vz (dragStartCoords s)) \<and>
      (case point of None \<Rightarrow> False
       | Some (px, pz) \<Rightarrow> inside (2 ^ 49) px \<and> inside (2 ^ 49) pz))"

definition small_limits :: "terrain_constants \<Rightarrow> bool" where
  "small_limits c =
     (inside (2 ^ 49) (MAX_IMPORT_SIZE_X c) \<and> js_le (JNum 2) (MAX_IMPORT_SIZE_X c) \<and>
      inside (2 ^ 49) (MAX_IMPORT_SIZE_Z c) \<and> js_le (JNum 2) (MAX_IMPORT_SIZE_Z c))"

text \<open>
  Example values for evaluating the handlers: import limits, the state as \<open>useState\<close>
  initialises it (bounds all zero, no drag in progress), a selection of 600 by 64 by 600
  blocks around the center (299, 31, 299), and two selections at \<open>2\<^sup>5\<^sup>3\<close>.
\<close>

definition limits_256 :: terrain_constants where
  "limits_256 =
     \<lparr> MAX_IMPORT_SIZE_X = JNum 256, MAX_IMPORT_SIZE_Y = JNum 320, MAX_IMPORT_SIZE_Z = JNum 256 \<rparr>"

definition limits_1 :: terrain_constants where
  "limits_1 =
     \<lparr> MAX_IMPORT_SIZE_X = JNum 1, MAX_IMPORT_SIZE_Y = JNum 1, MAX_IMPORT_SIZE_Z = JNum 1 \<rparr>"

definition selector_0 :: region_selector where
  "selector_0 =
     \<lparr> rs_bounds = \<lparr> minX = JNum 0, minY = JNum 0, minZ = JNum 0,
                       maxX = JNum 0, maxY = JNum 0, maxZ = JNum 0 \<rparr>,
       rs_size = \<lparr> vx = JNum 600, vy = JNum 64, vz = JNum 600 \<rparr>,
       rs_center = \<lparr> vx = JNum 0, vy = JNum 0, vz = JNum 0 \<rparr>,
       rs_offsets = (JNum 0, JNum 0),
       dragOperation = None,
       dragStartCoords = \<lparr> vx = JNum 0, vy = JNum 0, vz = JNum 0 \<rparr>,
       dragStartBounds = None,
       isDragging = False,
       isValid = False,
       prevBoundsRef = None,
       prevOffsetsRef = None \<rparr>"

definition selector_600 :: region_selector where
  "selector_600 =
     selector_0
       \<lparr> rs_bounds := \<lparr> minX = JNum (- 1), minY = JNum (- 1), minZ = JNum (- 1),
                          maxX = JNum 598, maxY = JNum 62, maxZ = JNum 598 \<rparr>,
         rs_center := \<lparr> vx = JNum 299, vy = JNum 31, vz = JNum 299 \<rparr>,
         isValid := True \<rparr>"


definition selector_edge :: region_selector where
  "selector_edge =
     selector_0
       \<lparr> rs_bounds := \<lparr> minX = JNum 9007199254740992, minY = JNum 0, minZ = JNum 0,
                          maxX = JNum 9007199254741092, maxY = JNum 63, maxZ = JNum 10 \<rparr> \<rparr>"

section \<open>Export options window (org.jmc.gui.ExportWindow)\<close>

subsection \<open>Values and services of the Java platform\<close>

text \<open>
  A Java \<open>float\<close> or \<open>double\<close> is a finite number, an infinity or NaN. The parsing and
  printing routines of the JDK are not part of the program; the model takes them as a
  parameter. A parser returns \<open>None\<close> where the JDK throws \<open>NumberFormatException\<close>.
\<close>

datatype jfloat = Finite rat | PosInfinity | NegInfinity | NaN

record jdk =
  parseFloat :: "string \<Rightarrow> jfloat option"
  parseDouble :: "string \<Rightarrow> jfloat option"
  parseInt :: "string \<Rightarrow> int option"
  floatToString :: "jfloat \<Rightarrow> string"
  doubleToString :: "jfloat \<Rightarrow> string"
  intToString :: "int \<Rightarrow> string"

text \<open>
  The preference node: keys to stored values. A getter returns its default when the key
  is absent or holds a value of another kind, as \<open>java.util.prefs.Preferences\<close> does.
\<close>

datatype pref = PBool bool | PInt int | PFloat jfloat | PDouble jfloat | PString string

type_synonym preferences = "string \<rightharpoonup> pref"

definition getBoolean :: "preferences \<Rightarrow> string \<Rightarrow> bool \<Rightarrow> bool" where
  "getBoolean p k d = (case p k of Some (PBool b) \<Rightarrow> b | _ \<Rightarrow> d)"

definition getInt :: "preferences \<Rightarrow> string \<Rightarrow> int \<Rightarrow> int" where
  "getInt p k d = (case p k of Some (PInt i) \<Rightarrow> i | _ \<Rightarrow> d)"

definition getFloat :: "preferences \<Rightarrow> string \<Rightarrow> jfloat \<Rightarrow> jfloat" where
  "getFloat p k d = (case p k of Some (PFloat f) \<Rightarrow> f | _ \<Rightarrow> d)"

definition getDouble :: "preferences \<Rightarrow> string \<Rightarrow> jfloat \<Rightarrow> jfloat" where
  "getDouble p k d = (case p k of Some (PDouble f) \<Rightarrow> f | _ \<Rightarrow> d)"

subsection \<open>Widgets\<close>

text \<open>
  The Swing widgets, as far as the window reads and writes them. A check box has a
  selection and an enabled flag. The combo box is not editable: \<open>setSelectedItem\<close> with
  an object that is not in its list leaves the selection as it is. A
  \<open>SpinnerNumberModel\<close> holds a value and its bounds; its \<open>setValue\<close> stores any
  number without a bounds check, while \<open>getNextValue\<close> and \<open>getPreviousValue\<close> test
  the stepped value against both bounds and yield nothing when it is outside, so that
  stepping leaves the value where it is. The values are Java \<open>int\<close>s; with the bounds
  1 and 512 of this window a step that overflows is outside the bounds as well.
\<close>

record JCheckBox =
  cb_selected :: bool
  cb_enabled :: bool

record JComboBox =
  cbox_items :: "string list"
  cbox_selected :: string

record SpinnerNumberModel =
  sp_value :: int
  sp_minimum :: int
  sp_maximum :: int
  sp_stepSize :: int

definition setSelectedItem :: "string \<Rightarrow> JComboBox \<Rightarrow> JComboBox" where
  "setSelectedItem x c = (if x \<in> set (cbox_items c) then c\<lparr>cbox_selected := x\<rparr> else c)"

definition setSelectedIndex :: "nat \<Rightarrow> JComboBox \<Rightarrow> JComboBox" where
  "setSelectedIndex i c =
     (if i < length (cbox_items c) then c\<lparr>cbox_selected := cbox_items c ! i\<rparr> else c)"

definition setValue :: "int \<Rightarrow> SpinnerNumberModel \<Rightarrow> SpinnerNumberModel" where
  "setValue v m = m\<lparr>sp_value := v\<rparr>"

definition incrValue :: "int \<Rightarrow> SpinnerNumberModel \<Rightarrow> int option" where
  "incrValue dir m =
     (let newValue = sp_value m + sp_stepSize m * dir
      in if sp_maximum m < newValue then None
         else if sp_minimum m > newValue then None
         else Some newValue)"

definition getNextValue :: "SpinnerNumberModel \<Rightarrow> int option" where
  "getNextValue m = incrValue 1 m"

definition getPreviousValue :: "SpinnerNumberModel \<Rightarrow> int option" where
  "getPreviousValue m = incrValue (- 1) m"

definition spin_up :: "SpinnerNumberModel \<Rightarrow> SpinnerNumberModel" where
  "spin_up m = (case getNextValue m of None \<Rightarrow> m | Some v \<Rightarrow> setValue v m)"

definition spin_down :: "SpinnerNumberModel \<Rightarrow> SpinnerNumberModel" where
  "spin_down m = (case getPreviousValue m of None \<Rightarrow> m | Some v \<Rightarrow> setValue v m)"

text \<open>Typing a number into the spinner: the editor commits it only within the bounds.\<close>

definition spin_commit :: "int \<Rightarrow> SpinnerNumberModel \<Rightarrow> SpinnerNumberModel" where
  "spin_commit v m = (if sp_minimum m \<le> v \<and> v \<le> sp_maximum m then setValue v m else m)"

subsection \<open>The window and the global options\<close>

datatype chk =
    RenderWorldSides | RenderBiomes | RenderEntities | RenderUnknownBlocks
  | SeparateMat | SeparateMatOccl | SeparateChunk | RandBlockVariation
  | DoubleSidedFaces | SeparateBlock | OptimiseGeo | ConvertOreTo | MergeVerticies
  | SeparateAlphaTexture | CombineAllTextures | SingleMat | UseLastSaveLoc
  | ExportSeparateLight | ExportNormalMaps | ExportSpecularMaps | ExportTextures
  | SeparateBlockOccl | ObjUseGroup

datatype OffsetType = NONE | CENTER | CUSTOM

datatype OverwriteAction = ASK | ALWAYS | NEVER

text \<open>
  The three radio buttons share one \<open>ButtonGroup\<close>, so exactly one of them is selected;
  the field \<open>rdbtn\<close> says which (\<open>NONE\<close> for \<open>rdbtnNone\<close>, and so on).
\<close>

record ExportWindow =
  textFieldMapScale :: string
  rdbtn :: OffsetType
  txtX :: string
  txtZ :: string
  txtX_enabled :: bool
  txtZ_enabled :: bool
  chckbx :: "chk \<Rightarrow> JCheckBox"
  cboxTexScale :: JComboBox
  spinnerThreads :: SpinnerNumberModel

record Options =
  scale :: jfloat
  offsetX :: int
  offsetZ :: int
  offsetType :: OffsetType
  objOverwriteAction :: OverwriteAction
  mtlOverwriteAction :: OverwriteAction
  renderSides :: bool
  renderBiomes :: bool
  renderEntities :: bool
  renderUnknown :: bool
  objectPerMaterial :: bool
  objectPerMaterialOcclusion :: bool
  objectPerChunk :: bool
  objectPerBlock :: bool
  objectPerBlockOcclusion :: bool
  randBlockVariations :: bool
  doubleSidedFaces :: bool
  optimiseGeometry :: bool
  convertOres :: bool
  removeDuplicates :: bool
  useLastSaveLoc :: bool
  textureScale :: jfloat
  exportTex :: bool
  textureAlpha :: bool
  textureNormal :: bool
  textureSpecular :: bool
  textureMerge :: bool
  textureLight :: bool
  singleMaterial :: bool
  exportThreads :: int
  objUseGroup :: bool
  resourcePacks :: "string list"

definition isSelected :: "ExportWindow \<Rightarrow> chk \<Rightarrow> bool" where
  "isSelected w c = cb_selected (chckbx w c)"

definition isEnabled :: "ExportWindow \<Rightarrow> chk \<Rightarrow> bool" where
  "isEnabled w c = cb_enabled (chckbx w c)"

definition setEnabled :: "chk \<Rightarrow> bool \<Rightarrow> ExportWindow \<Rightarrow> ExportWindow" where
  "setEnabled c b w = w\<lparr>chckbx := (chckbx w)(c := (chckbx w c)\<lparr>cb_enabled := b\<rparr>)\<rparr>"

definition setSelected :: "chk \<Rightarrow> bool \<Rightarrow> ExportWindow \<Rightarrow> ExportWindow" where
  "setSelected c b w = w\<lparr>chckbx := (chckbx w)(c := (chckbx w c)\<lparr>cb_selected := b\<rparr>)\<rparr>"

text \<open>The window as the constructor leaves it before it calls \<open>loadSettings\<close>.\<close>

definition texScaleItems :: "string list" where
  "texScaleItems = [''1x'', ''2x'', ''4x'', ''8x'', ''16x'']"

definition newExportWindow :: ExportWindow where
  "newExportWindow =
     \<lparr> textFieldMapScale = [],
       rdbtn = NONE,
       txtX = ''0'',
       txtZ = ''0'',
       txtX_enabled = False,
       txtZ_enabled = False,
       chckbx = (\<lambda>c. \<lparr> cb_selected = False, cb_enabled = True \<rparr>),
       cboxTexScale = \<lparr> cbox_items = texScaleItems, cbox_selected = ''1x'' \<rparr>,
       spinnerThreads =
         \<lparr> sp_value = 8, sp_minimum = 1, sp_maximum = 512, sp_stepSize = 1 \<rparr> \<rparr>"

subsection \<open>updateEnabledSettings\<close>

text \<open>The first block of the method is commented out in the source up to its \<open>else\<close> branch.\<close>

definition updateEnabledSettings :: "ExportWindow \<Rightarrow> ExportWindow" where
  "updateEnabledSettings w =
     (let w1 = setEnabled OptimiseGeo True
                 (setEnabled SingleMat False (setEnabled ExportSeparateLight False w));
          w2 = (if isSelected w1 SeparateBlock
                then setEnabled OptimiseGeo False
                       (setEnabled SeparateChunk False
                         (setEnabled SeparateMat False
                           (setEnabled SeparateBlockOccl True w1)))
                else setEnabled OptimiseGeo True
                       (setEnabled SeparateChunk True
                         (setEnabled SeparateMat True
                           (setEnabled SeparateBlockOccl False w1))))
      in if isSelected w2 SeparateMat \<and> isEnabled w2 SeparateMat
         then setEnabled SeparateMatOccl True w2
         else setEnabled SeparateMatOccl False w2)"

subsection \<open>updateOptions\<close>

text \<open>
  The offsets are parsed inside one \<open>try\<close> block: a \<open>NumberFormatException\<close> on the X
  field skips the Z field as well. The result is the pair of new offsets.
\<close>

definition parse_field :: "jdk \<Rightarrow> string \<Rightarrow> int \<Rightarrow> int option" where
  "parse_field j txt old =
     (if txt \<noteq> [] \<and> txt \<noteq> ''-'' then parseInt j txt else Some old)"

definition update_offsets :: "jdk \<Rightarrow> ExportWindow \<Rightarrow> Options \<Rightarrow> int \<times> int" where
  "update_offsets j w opts =
     (case parse_field j (txtX w) (offsetX opts) of
        None \<Rightarrow> (offsetX opts, offsetZ opts)
      | Some x \<Rightarrow>
          (case parse_field j (txtZ w) (offsetZ opts) of
             None \<Rightarrow> (x, offsetZ opts)
           | Some z \<Rightarrow> (x, z)))"

text \<open>The text of the selected scale item, with a final \<open>x\<close> cut off.\<close>

definition strip_x :: "string \<Rightarrow> string" where
  "strip_x txt = (if txt \<noteq> [] \<and> last txt = CHR ''x'' then butlast txt else txt)"

definition update_textureScale :: "jdk \<Rightarrow> ExportWindow \<Rightarrow> Options \<Rightarrow> jfloat" where
  "update_textureScale j w opts =
     (let txt = cbox_selected (cboxTexScale w)
      in if txt \<noteq> []
         then (case parseDouble j (strip_x txt) of
                 Some d \<Rightarrow> d
               | None \<Rightarrow> textureScale opts)
         else textureScale opts)"

definition updateOptions :: "jdk \<Rightarrow> ExportWindow \<Rightarrow> Options \<Rightarrow> Options" where
  "updateOptions j w opts =
     opts\<lparr>
       scale := (case parseFloat j (textFieldMapScale w) of
                   Some f \<Rightarrow> f
                 | None \<Rightarrow> Finite 1),
       offsetX := fst (update_offsets j w opts),
       offsetZ := snd (update_offsets j w opts),
       offsetType := (if rdbtn w = CENTER then CENTER
                      else if rdbtn w = CUSTOM then CUSTOM
                      else NONE),
       renderSides := isSelected w RenderWorldSides,
       renderBiomes := isSelected w RenderBiomes,
       renderEntities := isSelected w RenderEntities,
       renderUnknown := isSelected w RenderUnknownBlocks,
       objectPerMaterial := (isSelected w SeparateMat \<and> isEnabled w SeparateMat),
       objectPerMaterialOcclusion := isSelected w SeparateMatOccl,
       objectPerChunk := (isSelected w SeparateChunk \<and> isEnabled w SeparateChunk),
       objectPerBlock := isSelected w SeparateBlock,
       objectPerBlockOcclusion := isSelected w SeparateBlockOccl,
       randBlockVariations := isSelected w RandBlockVariation,
       doubleSidedFaces := isSelected w DoubleSidedFaces,
       optimiseGeometry := (isSelected w OptimiseGeo \<and> isEnabled w OptimiseGeo),
       convertOres := isSelected w ConvertOreTo,
       removeDuplicates := isSelected w MergeVerticies,
       useLastSaveLoc := isSelected w UseLastSaveLoc,
       textureScale := update_textureScale j w opts,
       exportTex := isSelected w ExportTextures,
       textureAlpha := isSelected w SeparateAlphaTexture,
       textureNormal := isSelected w ExportNormalMaps,
       textureSpecular := isSelected w ExportSpecularMaps,
       textureMerge := isSelected w CombineAllTextures,
       textureLight := (isSelected w ExportSeparateLight \<and> isEnabled w ExportSeparateLight),
       singleMaterial := (isSelected w SingleMat \<and> isEnabled w SingleMat),
       exportThreads := sp_value (spinnerThreads w),
       objUseGroup := isSelected w ObjUseGroup \<rparr>"

subsection \<open>loadSettings and saveSettings\<close>

text \<open>
  The check boxes that \<open>loadSettings\<close> sets from the preferences, with key and default,
  in the order of the source.
\<close>

definition loaded_checkboxes :: "(chk \<times> string \<times> bool) list" where
  "loaded_checkboxes =
     [(RenderUnknownBlocks, ''RENDER_UNKNOWN'', True),
      (RenderWorldSides, ''RENDER_SIDES'', False),
      (RenderBiomes, ''RENDER_BIOMES'', True),
      (RenderEntities, ''RENDER_ENTITIES'', True),
      (ConvertOreTo, ''CONVERT_ORES'', True),
      (SeparateMat, ''OBJ_PER_MTL'', False),
      (SeparateMatOccl, ''OBJ_PER_MTL_OCCL'', True),
      (SeparateChunk, ''OBJ_PER_CHUNK'', False),
      (SeparateBlock, ''OBJ_PER_BLOCK'', False),
      (SeparateBlockOccl, ''OBJ_PER_BLOCK_OCCL'', False),
      (RandBlockVariation, ''RAND_BLOCK_VARIATION'', False),
      (DoubleSidedFaces, ''DOUBLE_SINGLE_FACES'', False),
      (OptimiseGeo, ''OPTIMISE_GEO'', True),
      (MergeVerticies, ''REMOVE_DUPLICATES'', False),
      (UseLastSaveLoc, ''USE_LAST_SAVE_LOC'', False),
      (ExportTextures, ''TEXTURE_EXPORT'', True),
      (SeparateAlphaTexture, ''TEXTURE_ALPHA'', False),
      (ExportNormalMaps, ''TEXTURE_NORMAL'', False),
      (ExportSpecularMaps, ''TEXTURE_SPECULAR'', False),
      (ExportSeparateLight, ''TEXTURE_LIGHT'', False),
      (CombineAllTextures, ''TEXTURE_MERGE'', False),
      (SingleMat, ''SINGLE_MTL'', False),
      (ObjUseGroup, ''OBJ_USE_GROUP'', False)]"

definition load_checkbox :: "preferences \<Rightarrow> ExportWindow \<Rightarrow> chk \<times> string \<times> bool \<Rightarrow> ExportWindow" where
  "load_checkbox p w e = (case e of (c, k, d) \<Rightarrow> setSelected c (getBoolean p k d) w)"

text \<open>The \<open>switch\<close> on the stored offset type has no default branch.\<close>

definition load_offset_type :: "int \<Rightarrow> ExportWindow \<Rightarrow> ExportWindow" where
  "load_offset_type n w =
     (if n = 0 then w\<lparr>rdbtn := NONE, txtX_enabled := False, txtZ_enabled := False\<rparr>
      else if n = 1 then w\<lparr>rdbtn := CENTER, txtX_enabled := False, txtZ_enabled := False\<rparr>
      else if n = 2 then w\<lparr>rdbtn := CUSTOM, txtX_enabled := True, txtZ_enabled := True\<rparr>
      else w)"

definition load_widgets :: "jdk \<Rightarrow> preferences \<Rightarrow> ExportWindow \<Rightarrow> ExportWindow" where
  "load_widgets j p w =
     (let w1 = w\<lparr>textFieldMapScale := floatToString j (getFloat p ''DEFAULT_SCALE'' (Finite 1))\<rparr>;
          w2 = load_offset_type (getInt p ''OFFSET_TYPE'' 0) w1;
          w3 = w2\<lparr>txtX := intToString j (getInt p ''OFFSET_X'' 0),
                   txtZ := intToString j (getInt p ''OFFSET_Z'' 0)\<rparr>;
          w4 = foldl (load_checkbox p) w3 loaded_checkboxes;
          w5 = w4\<lparr>cboxTexScale :=
                     setSelectedItem (doubleToString j (getDouble p ''TEXTURE_SCALE_ID'' (Finite 1)))
                       (cboxTexScale w4)\<rparr>
      in w5\<lparr>spinnerThreads := setValue (getInt p ''EXPORT_THREADS'' 8) (spinnerThreads w5)\<rparr>)"

text \<open>
  The state of the dialog: the window, the global \<open>Options\<close> and the preference node.
\<close>

type_synonym gui = "ExportWindow \<times> Options \<times> preferences"

definition loadSettings :: "jdk \<Rightarrow> gui \<Rightarrow> gui" where
  "loadSettings j g =
     (case g of (w, opts, p) \<Rightarrow>
        let w1 = updateEnabledSettings (load_widgets j p w)
        in (w1, updateOptions j w1 opts, p))"

definition offsetType_code :: "OffsetType \<Rightarrow> int" where
  "offsetType_code t = (case t of NONE \<Rightarrow> 0 | CENTER \<Rightarrow> 1 | CUSTOM \<Rightarrow> 2)"

definition overwrite_code :: "OverwriteAction \<Rightarrow> int" where
  "overwrite_code a = (case a of ASK \<Rightarrow> 0 | ALWAYS \<Rightarrow> 1 | NEVER \<Rightarrow> 2)"

definition saveSettings :: "jdk \<Rightarrow> gui \<Rightarrow> gui" where
  "saveSettings j g =
     (case g of (w, opts, p) \<Rightarrow>
        let w1 = updateEnabledSettings w;
            o1 = updateOptions j w1 opts
        in (w1, o1,
            p(''DEFAULT_SCALE'' \<mapsto> PFloat (scale o1),
              ''OFFSET_X'' \<mapsto> PInt (offsetX o1),
              ''OFFSET_Z'' \<mapsto> PInt (offsetZ o1),
              ''OFFSET_TYPE'' \<mapsto> PInt (offsetType_code (offsetType o1)),
              ''OBJ_OVERWRITE'' \<mapsto> PInt (overwrite_code (objOverwriteAction o1)),
              ''MTL_OVERWRITE'' \<mapsto> PInt (overwrite_code (mtlOverwriteAction o1)),
              ''RENDER_SIDES'' \<mapsto> PBool (renderSides o1),
              ''RENDER_BIOMES'' \<mapsto> PBool (renderBiomes o1),
              ''RENDER_ENTITIES'' \<mapsto> PBool (renderEntities o1),
              ''RENDER_UNKNOWN'' \<mapsto> PBool (renderUnknown o1),
              ''OBJ_PER_MTL'' \<mapsto> PBool (isSelected w1 SeparateMat),
              ''OBJ_PER_MTL_OCCL'' \<mapsto> PBool (objectPerMaterialOcclusion o1),
              ''OBJ_PER_CHUNK'' \<mapsto> PBool (isSelected w1 SeparateChunk),
              ''OBJ_PER_BLOCK'' \<mapsto> PBool (objectPerBlock o1),
              ''RAND_BLOCK_VARIATION'' \<mapsto> PBool (randBlockVariations o1),
              ''DOUBLE_SINGLE_FACES'' \<mapsto> PBool (doubleSidedFaces o1),
              ''OPTIMISE_GEO'' \<mapsto> PBool (isSelected w1 OptimiseGeo),
              ''CONVERT_ORES'' \<mapsto> PBool (convertOres o1),
              ''SINGLE_MTL'' \<mapsto> PBool (singleMaterial o1),
              ''REMOVE_DUPLICATES'' \<mapsto> PBool (removeDuplicates o1),
              ''USE_LAST_SAVE_LOC'' \<mapsto> PBool (useLastSaveLoc o1),
              ''TEXTURE_SCALE_ID'' \<mapsto> PDouble (textureScale o1),
              ''TEXTURE_EXPORT'' \<mapsto> PBool (exportTex o1),
              ''TEXTURE_ALPHA'' \<mapsto> PBool (textureAlpha o1),
              ''TEXTURE_NORMAL'' \<mapsto> PBool (textureNormal o1),
              ''TEXTURE_SPECULAR'' \<mapsto> PBool (textureSpecular o1),
              ''TEXTURE_LIGHT'' \<mapsto> PBool (textureLight o1),
              ''TEXTURE_MERGE'' \<mapsto> PBool (textureMerge o1),
              ''EXPORT_THREADS'' \<mapsto> PInt (exportThreads o1),
              ''OBJ_USE_GROUP'' \<mapsto> PBool (objUseGroup o1))))"

subsection \<open>User actions\<close>

text \<open>
  Every check box, the combo box and the spinner carry a listener that calls
  \<open>saveSettings\<close>. A click toggles a check box that is enabled and does nothing to a
  disabled one; choosing an entry of the combo box selects it; the spinner is stepped or
  typed into. The text fields call \<open>saveSettings\<close> on every edit, and the radio buttons
  enable the offset fields for \<open>rdbtnCustom\<close> only before they do so.
\<close>

datatype action =
    Click chk
  | ChooseTexScale nat
  | SpinUp
  | SpinDown
  | SpinType int
  | TypeMapScale string
  | TypeX string
  | TypeZ string
  | ChooseOffset OffsetType

definition click :: "chk \<Rightarrow> ExportWindow \<Rightarrow> ExportWindow" where
  "click c w = (if isEnabled w c then setSelected c (\<not> isSelected w c) w else w)"

definition perform :: "action \<Rightarrow> ExportWindow \<Rightarrow> ExportWindow" where
  "perform a w =
     (case a of
        Click c \<Rightarrow> click c w
      | ChooseTexScale i \<Rightarrow> w\<lparr>cboxTexScale := setSelectedIndex i (cboxTexScale w)\<rparr>
      | SpinUp \<Rightarrow> w\<lparr>spinnerThreads := spin_up (spinnerThreads w)\<rparr>
      | SpinDown \<Rightarrow> w\<lparr>spinnerThreads := spin_down (spinnerThreads w)\<rparr>
      | SpinType v \<Rightarrow> w\<lparr>spinnerThreads := spin_commit v (spinnerThreads w)\<rparr>
      | TypeMapScale t \<Rightarrow> w\<lparr>textFieldMapScale := t\<rparr>
      | TypeX t \<Rightarrow> w\<lparr>txtX := t\<rparr>
      | TypeZ t \<Rightarrow> w\<lparr>txtZ := t\<rparr>
      | ChooseOffset t \<Rightarrow>
          w\<lparr>rdbtn := t, txtX_enabled := (t = CUSTOM), txtZ_enabled := (t = CUSTOM)\<rparr>)"

definition on_action :: "jdk \<Rightarrow> gui \<Rightarrow> action \<Rightarrow> gui" where
  "on_action j g a = (case g of (w, opts, p) \<Rightarrow> saveSettings j (perform a w, opts, p))"

text \<open>A session: the constructor, which loads the settings, and then the user's actions.\<close>

definition session :: "jdk \<Rightarrow> Options \<Rightarrow> preferences \<Rightarrow> action list \<Rightarrow> gui" where
  "session j opts p as = foldl (on_action j) (loadSettings j (newExportWindow, opts, p)) as"

subsection \<open>Invariants of a session\<close>

text \<open>
  The spinner holds a value within the bounds its model was built with, and the
  configured thread count is that value.
\<close>

definition spinner_within :: "SpinnerNumberModel \<Rightarrow> bool" where
  "spinner_within m =
     (sp_minimum m = 1 \<and> sp_maximum m = 512 \<and> sp_stepSize m = 1 \<and>
      1 \<le> sp_value m \<and> sp_value m \<le> 512)"

definition threads_inv :: "gui \<Rightarrow> bool" where
  "threads_inv g =
     (spinner_within (spinnerThreads (fst g)) \<and>
      exportThreads (fst (snd g)) = sp_value (spinnerThreads (fst g)))"

text \<open>The stored thread count, read as \<open>loadSettings\<close> reads it, is within the bounds.\<close>

definition stored_threads_ok :: "preferences \<Rightarrow> bool" where
  "stored_threads_ok p =
     (1 \<le> getInt p ''EXPORT_THREADS'' 8 \<and> getInt p ''EXPORT_THREADS'' 8 \<le> 512)"

text \<open>
  The combo box offers the five scale items, one of them is selected, and the configured
  texture scale is one of the five factors. \<open>reads_scales\<close> says that the platform's
  \<open>Double.parseDouble\<close> reads the five numerals as the numbers they denote.
\<close>

definition scales :: "jfloat set" where
  "scales = {Finite 1, Finite 2, Finite 4, Finite 8, Finite 16}"

definition reads_scales :: "jdk \<Rightarrow> bool" where
  "reads_scales j =
     (parseDouble j ''1'' = Some (Finite 1) \<and> parseDouble j ''2'' = Some (Finite 2) \<and>
      parseDouble j ''4'' = Some (Finite 4) \<and> parseDouble j ''8'' = Some (Finite 8) \<and>
      parseDouble j ''16'' = Some (Finite 16))"

definition combo_inv :: "gui \<Rightarrow> bool" where
  "combo_inv g =
     (cbox_items (cboxTexScale (fst g)) = texScaleItems \<and>
      cbox_selected (cboxTexScale (fst g)) \<in> set texScaleItems \<and>
      textureScale (fst (snd g)) \<in> scales)"

subsection \<open>Concrete platform and options for running the model\<close>

text \<open>
  A small stand-in for the JDK routines, for running the model: it reads an unsigned
  decimal numeral as the number it denotes, rejects every other text, and prints the
  texts of the default preferences.
\<close>

definition digit_value :: "char \<Rightarrow> nat option" where
  "digit_value ch =
     (if ch = CHR ''0'' then Some 0 else if ch = CHR ''1'' then Some 1
      else if ch = CHR ''2'' then Some 2 else if ch = CHR ''3'' then Some 3
      else if ch = CHR ''4'' then Some 4 else if ch = CHR ''5'' then Some 5
      else if ch = CHR ''6'' then Some 6 else if ch = CHR ''7'' then Some 7
      else if ch = CHR ''8'' then Some 8 else if ch = CHR ''9'' then Some 9
      else None)"

fun read_digits :: "nat \<Rightarrow> string \<Rightarrow> nat option" where
  "read_digits acc [] = Some acc"
| "read_digits acc (ch # cs) =
     (case digit_value ch of None \<Rightarrow> None | Some d \<Rightarrow> read_digits (10 * acc + d) cs)"

definition read_numeral :: "string \<Rightarrow> nat option" where
  "read_numeral txt = (if txt = [] then None else read_digits 0 txt)"

definition small_jdk :: jdk where
  "small_jdk =
     \<lparr> parseFloat = (\<lambda>t. map_option (\<lambda>n. Finite (of_nat n)) (read_numeral t)),
       parseDouble = (\<lambda>t. map_option (\<lambda>n. Finite (of_nat n)) (read_numeral t)),
       parseInt = (\<lambda>t. map_option int (read_numeral t)),
       floatToString = (\<lambda>f. ''1.0''),
       doubleToString = (\<lambda>f. ''1.0''),
       intToString = (\<lambda>i. ''0'') \<rparr>"

definition options_0 :: Options where
  "options_0 =
     \<lparr> scale = Finite 1, offsetX = 0, offsetZ = 0, offsetType = NONE,
       objOverwriteAction = ASK, mtlOverwriteAction = ASK,
       renderSides = False, renderBiomes = True, renderEntities = False,
       renderUnknown = False, objectPerMaterial = False,
       objectPerMaterialOcclusion = False, objectPerChunk = False,
       objectPerBlock = False, objectPerBlockOcclusion = False,
       randBlockVariations = False, doubleSidedFaces = False, optimiseGeometry = True,
       convertOres = False, removeDuplicates = True, useLastSaveLoc = False,
       textureScale = Finite 1, exportTex = True, textureAlpha = False,
       textureNormal = False, textureSpecular = False, textureMerge = False,
       textureLight = False, singleMaterial = False, exportThreads = 8,
       objUseGroup = False, resourcePacks = [] \<rparr>"

definition window_block :: ExportWindow where
  "window_block = setSelected MergeVerticies True (setSelected SeparateBlock True newExportWindow)"

definition window_both :: ExportWindow where
  "window_both = setSelected SeparateChunk True (setSelected SeparateMat True newExportWindow)"

section \<open>Settings window (org.jmc.gui.Settings)\<close>

text \<open>
  A \<open>File\<close> is identified with its path. \<open>Filesystem.getMinecraftJar()\<close> is not part
  of this class; its result is a parameter, \<open>None\<close> for \<open>null\<close>. The method also
  refreshes a label and, on request, reloads the registries; neither touches the list.
\<close>

record Settings =
  listPacks :: "string list"
  chckbxUsePackDefault :: bool

definition add_all :: "string list \<Rightarrow> string list \<Rightarrow> string list" where
  "add_all resPacks packs = foldl (\<lambda>acc pack. acc @ [pack]) resPacks packs"

definition updateResourcePacks :: "string option \<Rightarrow> Settings \<Rightarrow> Options \<Rightarrow> Options" where
  "updateResourcePacks minecraftJar st opts =
     (let cleared = [];
          resPacks = add_all cleared (listPacks st)
      in opts\<lparr>resourcePacks :=
           (if chckbxUsePackDefault st
            then (case minecraftJar of
                    Some mc \<Rightarrow> resPacks @ [mc]
                  | None \<Rightarrow> resPacks)
            else resPacks)\<rparr>)"

definition settings_1 :: Settings where
  "settings_1 = \<lparr> listPacks = [''faithful.zip''], chckbxUsePackDefault = True \<rparr>"

section \<open>Block models (org.jmc.models.None)\<close>

text \<open>
  \<open>addModel\<close> receives the chunk processor that collects the geometry and returns
  nothing; the model returns the processor as the call leaves it. The body of
  \<open>None.addModel\<close> is empty. The classes of the arguments are not part of this file, so
  their types are left open.
\<close>

definition None_addModel :: "'cp \<Rightarrow> 'tcd \<Rightarrow> int \<Rightarrow> int \<Rightarrow> int \<Rightarrow> 'bd \<Rightarrow> 'ns \<Rightarrow> 'cp" where
  "None_addModel obj chunks x y z data biome = obj"

section \<open>Properties of the region selector\<close>

subsection \<open>Exact arithmetic on small integers\<close>

lemma r64_exact:
  "- 9007199254740992 < n \<Longrightarrow> n < 9007199254740992 \<Longrightarrow> r64 n = JNum n"
  by (simp add: r64_def)

lemmas js_arith = js_sub_def extent_def r64_exact js_le_def js_ge_def js_gt_def

lemma insideE:
  assumes "inside k x"
  obtains n where "x = JNum n" and "- k \<le> n" and "n \<le> k"
  using assms by (cases x) (auto simp: inside_def)

lemma inside_JNum [simp]: "inside k (JNum n) = (- k \<le> n \<and> n \<le> k)"
  by (simp add: inside_def)

lemma xz_insideE:
  assumes "xz_inside k b"
  obtains x0 x1 z0 z1 where "minX b = JNum x0" "maxX b = JNum x1" "minZ b = JNum z0" "maxZ b = JNum z1"
    "- k \<le> x0" "x0 \<le> k" "- k \<le> x1" "x1 \<le> k" "- k \<le> z0" "z0 \<le> k" "- k \<le> z1" "z1 \<le> k"
  using assms unfolding xz_inside_def
  by (elim conjE insideE) blast

lemma bitlen_numeral [simp]:
  "bitlen 0 = 0"
  "bitlen (Suc 0) = 1"
  "bitlen (numeral k) = Suc (bitlen (numeral k div 2))"
  by (simp_all add: bitlen.simps)

lemma r64_examples:
  "r64 9007199254741247 = JNum 9007199254741248"
  "r64 9007199254740993 = JNum 9007199254740992"
  by (simp_all add: r64_def round53_def Let_def)

lemma js_min_JNum [simp]: "js_min (JNum a) (JNum b) = JNum (min a b)"
  by (simp add: js_min_def min_def)

subsection \<open>Bounds trimming\<close>










text \<open>
  When trimming cuts a selection, the same run of the effect sets the size to the trimmed
  extents, the effect on size and center rebuilds the bounds around the center, and the
  region reported next is the rebuilt one. For a selection from -1 to 598 and a limit of
  256 the first report runs from -1 to 254, the second from 171 to 426.
\<close>

lemma recentred_after_trim:
  "snd (region_effect limits_256 selector_600) =
     Some (\<lparr> minX = JNum (- 1), minY = JNum (- 1), minZ = JNum (- 1),
              maxX = JNum 254, maxY = JNum 62, maxZ = JNum 254 \<rparr>, (JNum 0, JNum 0)) \<and>
   rs_size (fst (region_effect limits_256 selector_600)) =
     \<lparr> vx = JNum 256, vy = JNum 64, vz = JNum 256 \<rparr> \<and>
   snd (region_effect limits_256
          (valid_effect (size_center_effect None (fst (region_effect limits_256 selector_600))))) =
     Some (\<lparr> minX = JNum 171, minY = JNum (- 1), minZ = JNum 171,
              maxX = JNum 426, maxY = JNum 62, maxZ = JNum 426 \<rparr>, (JNum 0, JNum 0))"
  by (simp add: region_effect_def selector_600_def selector_0_def limits_256_def Let_def
        trimmedBounds_def js_sub_def extent_def js_gt_def r64_def size_center_effect_def
        valid_effect_def floor_half_def parity_step_def is_even_def or_default_def
        bounds_differ_def js_ne_def)


subsection \<open>Drag resizing\<close>

lemma delta_inside:
  assumes "inside 562949953421312 cur" and "inside 562949953421312 start"
  shows "inside 1125899906842624 (js_sub cur start)"
  using assms by (elim insideE) (simp add: js_arith)

lemma drag_switch_inside:
  assumes "xz_inside 562949953421312 b" and "xz_inside 562949953421312 sb"
    and "inside 1125899906842624 dx" and "inside 1125899906842624 dz"
  shows "xz_inside 1688849860263936 (drag_switch op sb dx dz b)"
proof -
  from assms(1) obtain x0 x1 z0 z1 where b: "minX b = JNum x0" "maxX b = JNum x1"
    "minZ b = JNum z0" "maxZ b = JNum z1"
    and bb: "- 562949953421312 \<le> x0" "x0 \<le> 562949953421312" "- 562949953421312 \<le> x1" "x1 \<le> 562949953421312"
      "- 562949953421312 \<le> z0" "z0 \<le> 562949953421312" "- 562949953421312 \<le> z1" "z1 \<le> 562949953421312"
    by (rule xz_insideE)
  from assms(2) obtain sx0 sx1 sz0 sz1 where sb: "minX sb = JNum sx0" "maxX sb = JNum sx1"
    "minZ sb = JNum sz0" "maxZ sb = JNum sz1"
    and sbb: "- 562949953421312 \<le> sx0" "sx0 \<le> 562949953421312" "- 562949953421312 \<le> sx1" "sx1 \<le> 562949953421312"
      "- 562949953421312 \<le> sz0" "sz0 \<le> 562949953421312" "- 562949953421312 \<le> sz1" "sz1 \<le> 562949953421312"
    by (rule xz_insideE)
  from assms(3) obtain ddx where dx: "dx = JNum ddx" "- 1125899906842624 \<le> ddx" "ddx \<le> 1125899906842624"
    by (rule insideE)
  from assms(4) obtain ddz where dz: "dz = JNum ddz" "- 1125899906842624 \<le> ddz" "ddz \<le> 1125899906842624"
    by (rule insideE)
  show ?thesis
    using b bb sb sbb dx dz
    by (simp add: drag_switch_def xz_inside_def js_arith)
qed

lemma fix_order_inside:
  assumes "xz_inside 1688849860263936 b"
  shows "xz_inside 1688849860263937 (fix_order op b) \<and>
         js_lt (minX (fix_order op b)) (maxX (fix_order op b)) \<and>
         js_lt (minZ (fix_order op b)) (maxZ (fix_order op b))"
proof -
  from assms obtain x0 x1 z0 z1 where b: "minX b = JNum x0" "maxX b = JNum x1"
    "minZ b = JNum z0" "maxZ b = JNum z1"
    and bb: "- 1688849860263936 \<le> x0" "x0 \<le> 1688849860263936" "- 1688849860263936 \<le> x1" "x1 \<le> 1688849860263936"
      "- 1688849860263936 \<le> z0" "z0 \<le> 1688849860263936" "- 1688849860263936 \<le> z1" "z1 \<le> 1688849860263936"
    by (rule xz_insideE)
  show ?thesis
    using b bb
    by (simp add: fix_order_def xz_inside_def js_arith Let_def)
qed


lemma limit_size_inside:
  assumes "xz_inside 1688849860263937 b"
    and "js_lt (minX b) (maxX b)" and "js_lt (minZ b) (maxZ b)"
    and "MAX_IMPORT_SIZE_X c = JNum mx" and "2 \<le> mx" and "mx \<le> 562949953421312"
    and "MAX_IMPORT_SIZE_Z c = JNum mz" and "2 \<le> mz" and "mz \<le> 562949953421312"
  shows "horizontal_ok c (limit_size c op b) \<and> xz_inside 2251799813685250 (limit_size c op b)"
proof -
  from assms(1) obtain x0 x1 z0 z1 where b: "minX b = JNum x0" "maxX b = JNum x1"
    "minZ b = JNum z0" "maxZ b = JNum z1"
    and bb: "- 1688849860263937 \<le> x0" "x0 \<le> 1688849860263937" "- 1688849860263937 \<le> x1"
      "x1 \<le> 1688849860263937" "- 1688849860263937 \<le> z0" "z0 \<le> 1688849860263937"
      "- 1688849860263937 \<le> z1" "z1 \<le> 1688849860263937"
    by (rule xz_insideE)
  show ?thesis
    using b bb assms(2-)
    by (simp add: limit_size_def horizontal_ok_def xz_inside_def js_arith Let_def) arith
qed

lemma drag_size_inside:
  assumes "xz_inside 1688849860263937 b"
    and "js_lt (minX b) (maxX b)" and "js_lt (minZ b) (maxZ b)"
    and "MAX_IMPORT_SIZE_X c = JNum mx" and "2 \<le> mx" and "mx \<le> 562949953421312"
    and "MAX_IMPORT_SIZE_Z c = JNum mz" and "2 \<le> mz" and "mz \<le> 562949953421312"
  shows "\<exists>sx sz. vx (drag_size c b sz0) = JNum sx \<and> vz (drag_size c b sz0) = JNum sz \<and>
           2 \<le> sx \<and> sx \<le> mx \<and> 2 \<le> sz \<and> sz \<le> mz"
proof -
  from assms(1) obtain x0 x1 z0 z1 where b: "minX b = JNum x0" "maxX b = JNum x1"
    "minZ b = JNum z0" "maxZ b = JNum z1"
    and bb: "- 1688849860263937 \<le> x0" "x0 \<le> 1688849860263937" "- 1688849860263937 \<le> x1"
      "x1 \<le> 1688849860263937" "- 1688849860263937 \<le> z0" "z0 \<le> 1688849860263937"
      "- 1688849860263937 \<le> z1" "z1 \<le> 1688849860263937"
    by (rule xz_insideE)
  show ?thesis
    using b bb assms(2-)
    by (simp add: drag_size_def js_arith)
qed

lemma center_inside:
  assumes "inside 2251799813685250 lo" and "inside 2251799813685250 hi"
  shows "inside 2251799813685250 (floor_half (js_add lo hi))"
  using assms by (elim insideE) (simp add: floor_half_def js_arith, arith)

lemma rebuilt_axis:
  assumes "2 \<le> sx" and "sx \<le> 562949953421312" and "- 2251799813685250 \<le> cx" and "cx \<le> 2251799813685250"
  shows "js_lt (js_sub (JNum cx) (floor_half (JNum sx)))
               (js_add (js_add (JNum cx) (floor_half (JNum sx))) (parity_step (JNum sx))) \<and>
         extent (js_sub (JNum cx) (floor_half (JNum sx)))
                (js_add (js_add (JNum cx) (floor_half (JNum sx))) (parity_step (JNum sx))) = JNum sx"
proof (cases "even sx")
  case True
  then obtain h where "sx = 2 * h" by (elim evenE)
  with assms show ?thesis
    by (simp add: floor_half_def parity_step_def is_even_def js_arith)
next
  case False
  then obtain h where "sx = 2 * h + 1" by (elim oddE)
  with assms show ?thesis
    by (simp add: floor_half_def parity_step_def is_even_def js_arith)
qed

lemma size_center_effect_ok:
  assumes "vx (rs_size s) = JNum sx" and "2 \<le> sx" and "sx \<le> mx"
    and "vz (rs_size s) = JNum sz" and "2 \<le> sz" and "sz \<le> mz"
    and "inside 2251799813685250 (vx (rs_center s))" and "inside 2251799813685250 (vz (rs_center s))"
    and "MAX_IMPORT_SIZE_X c = JNum mx" and "mx \<le> 562949953421312"
    and "MAX_IMPORT_SIZE_Z c = JNum mz" and "mz \<le> 562949953421312"
  shows "horizontal_ok c (rs_bounds (size_center_effect worldMaxY s))"
proof -
  from assms(7) obtain cx where cx: "vx (rs_center s) = JNum cx"
    "- 2251799813685250 \<le> cx" "cx \<le> 2251799813685250" by (rule insideE)
  from assms(8) obtain cz where cz: "vz (rs_center s) = JNum cz"
    "- 2251799813685250 \<le> cz" "cz \<le> 2251799813685250" by (rule insideE)
  have x: "sx \<le> 562949953421312" and z: "sz \<le> 562949953421312" using assms by simp_all
  from rebuilt_axis [OF assms(2) x cx(2,3)] rebuilt_axis [OF assms(5) z cz(2,3)]
  show ?thesis
    using assms cx cz
    by (auto simp: size_center_effect_def horizontal_ok_def Let_def js_le_def)
qed


lemma small_limitsE:
  assumes "small_limits c"
  obtains mx mz where "MAX_IMPORT_SIZE_X c = JNum mx" "2 \<le> mx" "mx \<le> 562949953421312"
    "MAX_IMPORT_SIZE_Z c = JNum mz" "2 \<le> mz" "mz \<le> 562949953421312"
proof -
  from assms have a: "inside 562949953421312 (MAX_IMPORT_SIZE_X c)" "js_le (JNum 2) (MAX_IMPORT_SIZE_X c)"
    "inside 562949953421312 (MAX_IMPORT_SIZE_Z c)" "js_le (JNum 2) (MAX_IMPORT_SIZE_Z c)"
    by (simp_all add: small_limits_def)
  from a(1) obtain mx where mx: "MAX_IMPORT_SIZE_X c = JNum mx" "mx \<le> 562949953421312" by (rule insideE)
  from a(3) obtain mz where mz: "MAX_IMPORT_SIZE_Z c = JNum mz" "mz \<le> 562949953421312" by (rule insideE)
  from a(2) mx have "2 \<le> mx" by (auto simp: js_le_def)
  moreover from a(4) mz have "2 \<le> mz" by (auto simp: js_le_def)
  ultimately show ?thesis using mx mz that by blast
qed

text \<open>
  C10. After a step of \<open>handleDragMove\<close> in a drag, with a state, a pointer position
  and import limits that are integers of magnitude at most \<open>2\<^sup>4\<^sup>9\<close> and limits of at
  least 2, the selection is well formed and within the limits on both horizontal axes:
  minX < maxX, minZ < maxZ, and each extent is at most the import limit of its axis. This
  holds for every direction string, for the bounds that the handler passes to
  \<open>setBounds\<close> and for the bounds that the effect on size and center then rebuilds from
  the new size and center.
\<close>

theorem handleDragMove_keeps_bounds_ok:
  assumes "small_limits c" and "drag_active point s" and "small_drag point s"
  shows "horizontal_ok c (rs_bounds (handleDragMove c point s)) \<and>
         horizontal_ok c (rs_bounds (size_center_effect worldMaxY (handleDragMove c point s)))"
proof -
  from assms(1) obtain mx mz where m: "MAX_IMPORT_SIZE_X c = JNum mx" "2 \<le> mx" "mx \<le> 562949953421312"
    "MAX_IMPORT_SIZE_Z c = JNum mz" "2 \<le> mz" "mz \<le> 562949953421312"
    by (rule small_limitsE)
  from assms(2) obtain op sb px pz where
    a: "dragOperation s = Some op" "op \<noteq> []" "dragStartBounds s = Some sb" "point = Some (px, pz)"
    by (auto simp: drag_active_def)
  from assms(3) a have sm: "xz_inside 562949953421312 (rs_bounds s)" "xz_inside 562949953421312 sb"
    "inside 562949953421312 (vx (dragStartCoords s))" "inside 562949953421312 (vz (dragStartCoords s))"
    "inside 562949953421312 px" "inside 562949953421312 pz"
    by (simp_all add: small_drag_def)
  define dx where "dx = js_sub px (vx (dragStartCoords s))"
  define dz where "dz = js_sub pz (vz (dragStartCoords s))"
  define b1 where "b1 = drag_switch op sb dx dz (rs_bounds s)"
  define b2 where "b2 = fix_order op b1"
  have d: "inside 1125899906842624 dx" "inside 1125899906842624 dz"
    unfolding dx_def dz_def by (rule delta_inside [OF sm(5) sm(3)], rule delta_inside [OF sm(6) sm(4)])
  have i1: "xz_inside 1688849860263936 b1"
    unfolding b1_def by (rule drag_switch_inside [OF sm(1,2) d])
  have i2: "xz_inside 1688849860263937 b2" "js_lt (minX b2) (maxX b2)" "js_lt (minZ b2) (maxZ b2)"
    unfolding b2_def using fix_order_inside [OF i1, of op] by simp_all
  have i3: "horizontal_ok c (limit_size c op b2)" "xz_inside 2251799813685250 (limit_size c op b2)"
    using limit_size_inside [OF i2 m, of op] by simp_all
  obtain sx sz where sz: "vx (drag_size c b2 (rs_size s)) = JNum sx"
    "vz (drag_size c b2 (rs_size s)) = JNum sz" "2 \<le> sx" "sx \<le> mx" "2 \<le> sz" "sz \<le> mz"
    using drag_size_inside [OF i2 m, of "rs_size s"] by blast
  have st: "rs_bounds (handleDragMove c point s) = limit_size c op b2"
    "rs_size (handleDragMove c point s) = drag_size c b2 (rs_size s)"
    "vx (rs_center (handleDragMove c point s)) =
       floor_half (js_add (minX (limit_size c op b2)) (maxX (limit_size c op b2)))"
    "vz (rs_center (handleDragMove c point s)) =
       floor_half (js_add (minZ (limit_size c op b2)) (maxZ (limit_size c op b2)))"
    using a by (simp_all add: handleDragMove_def Let_def b2_def b1_def dx_def dz_def)
  have ce: "inside 2251799813685250 (vx (rs_center (handleDragMove c point s)))"
    "inside 2251799813685250 (vz (rs_center (handleDragMove c point s)))"
  proof -
    from i3(2) have l: "inside 2251799813685250 (minX (limit_size c op b2))"
      "inside 2251799813685250 (maxX (limit_size c op b2))"
      "inside 2251799813685250 (minZ (limit_size c op b2))"
      "inside 2251799813685250 (maxZ (limit_size c op b2))"
      by (simp_all add: xz_inside_def)
    show "inside 2251799813685250 (vx (rs_center (handleDragMove c point s)))"
      unfolding st by (rule center_inside [OF l(1,2)])
    show "inside 2251799813685250 (vz (rs_center (handleDragMove c point s)))"
      unfolding st by (rule center_inside [OF l(3,4)])
  qed
  have s1: "vx (rs_size (handleDragMove c point s)) = JNum sx"
    and s2: "vz (rs_size (handleDragMove c point s)) = JNum sz"
    using st(2) sz(1,2) by simp_all
  have "horizontal_ok c (rs_bounds (size_center_effect worldMaxY (handleDragMove c point s)))"
    by (rule size_center_effect_ok [OF s1 sz(3,4) s2 sz(5,6) ce m(1) m(3) m(4) m(6)])
  with i3(1) st(1) show ?thesis by simp
qed


lemmas drag_eval = handleDragMove_def handleDragStart_def selector_0_def limits_256_def
  drag_switch_def fix_order_def limit_size_def drag_size_def str_includes_def Let_def
  js_sub_def extent_def js_gt_def js_ge_def js_le_def

theorem handleDragMove_keeps_bounds_ok_witness:
  "small_limits limits_256 \<and>
   drag_active (Some (JNum 500, JNum 13)) (handleDragStart (Some (JNum 10, JNum 10)) ''se'' selector_0) \<and>
   small_drag (Some (JNum 500, JNum 13)) (handleDragStart (Some (JNum 10, JNum 10)) ''se'' selector_0) \<and>
   horizontal_ok limits_256
     (rs_bounds (handleDragMove limits_256 (Some (JNum 500, JNum 13))
        (handleDragStart (Some (JNum 10, JNum 10)) ''se'' selector_0))) \<and>
   horizontal_ok limits_256
     (rs_bounds (size_center_effect None (handleDragMove limits_256 (Some (JNum 500, JNum 13))
        (handleDragStart (Some (JNum 10, JNum 10)) ''se'' selector_0))))"
proof -
  have l: "small_limits limits_256"
    by (simp add: small_limits_def limits_256_def js_le_def)
  have a: "drag_active (Some (JNum 500, JNum 13))
             (handleDragStart (Some (JNum 10, JNum 10)) ''se'' selector_0)"
    by (simp add: drag_active_def handleDragStart_def)
  have s: "small_drag (Some (JNum 500, JNum 13))
             (handleDragStart (Some (JNum 10, JNum 10)) ''se'' selector_0)"
    by (simp add: small_drag_def handleDragStart_def selector_0_def xz_inside_def)
  from handleDragMove_keeps_bounds_ok [OF l a s, of None] l a s show ?thesis by simp
qed


text \<open>
  The same drag, evaluated: the east edge is pulled 490 blocks out and stops at the
  limit of 256, the south edge moves by 3.
\<close>

lemma handleDragMove_example:
  "rs_bounds (handleDragMove limits_256 (Some (JNum 500, JNum 13))
      (handleDragStart (Some (JNum 10, JNum 10)) ''se'' selector_0)) =
   \<lparr> minX = JNum 0, minY = JNum 0, minZ = JNum 0, maxX = JNum 255, maxY = JNum 0, maxZ = JNum 3 \<rparr>"
  by (simp add: drag_eval r64_def)

text \<open>
  At \<open>2\<^sup>5\<^sup>3\<close> the repair \<open>maxX = minX + 1\<close> rounds back to \<open>minX\<close>: dragging the east
  edge of a selection that starts there past its west edge leaves minX = maxX.
\<close>

theorem handleDragMove_at_2_53:
  "rs_bounds (handleDragMove limits_256 (Some (JNum (- 200), JNum 0))
      (handleDragStart (Some (JNum 0, JNum 0)) ''e'' selector_edge)) =
   \<lparr> minX = JNum 9007199254740992, minY = JNum 0, minZ = JNum 0,
     maxX = JNum 9007199254740992, maxY = JNum 63, maxZ = JNum 10 \<rparr> \<and>
   \<not> horizontal_ok limits_256
      (rs_bounds (handleDragMove limits_256 (Some (JNum (- 200), JNum 0))
         (handleDragStart (Some (JNum 0, JNum 0)) ''e'' selector_edge)))"
  by (simp add: drag_eval selector_edge_def horizontal_ok_def r64_def round53_def)


text \<open>
  A pointer position that is NaN goes through both repairs, whose comparisons are false;
  a call outside a drag leaves the bounds as they are; with an import limit of 1 the size
  limit undoes the order repair.
\<close>

lemma handleDragMove_NaN:
  "\<not> horizontal_ok limits_256
      (rs_bounds (handleDragMove limits_256 (Some (JNaN, JNum 13))
         (handleDragStart (Some (JNum 10, JNum 10)) ''e'' selector_0)))"
  by (simp add: drag_eval horizontal_ok_def r64_def)

lemma handleDragMove_idle:
  "\<not> drag_active point s \<Longrightarrow> rs_bounds (handleDragMove c point s) = rs_bounds s"
  by (auto simp: handleDragMove_def drag_active_def Let_def split: option.splits)

lemma handleDragMove_limit_1:
  "\<not> horizontal_ok limits_1
      (rs_bounds (handleDragMove limits_1 (Some (JNum 500, JNum 13))
         (handleDragStart (Some (JNum 10, JNum 10)) ''se'' selector_0)))"
  by (simp add: drag_eval limits_1_def horizontal_ok_def r64_def)

text \<open>
  The horizontal bounds that the effect on size and center builds depend on the x and z
  components of size and center only, and the reporting effect leaves the center alone.
\<close>

lemma size_center_effect_horizontal:
  assumes "vx (rs_size s) = vx (rs_size s')" and "vz (rs_size s) = vz (rs_size s')"
    and "vx (rs_center s) = vx (rs_center s')" and "vz (rs_center s) = vz (rs_center s')"
  shows "minX (rs_bounds (size_center_effect w s)) = minX (rs_bounds (size_center_effect w' s')) \<and>
         maxX (rs_bounds (size_center_effect w s)) = maxX (rs_bounds (size_center_effect w' s')) \<and>
         minZ (rs_bounds (size_center_effect w s)) = minZ (rs_bounds (size_center_effect w' s')) \<and>
         maxZ (rs_bounds (size_center_effect w s)) = maxZ (rs_bounds (size_center_effect w' s'))"
  using assms by (simp add: size_center_effect_def Let_def)

lemma region_effect_center [simp]: "rs_center (fst (region_effect c s)) = rs_center s"
  by (simp add: region_effect_def Let_def)

section \<open>Properties of the export options window\<close>

subsection \<open>Reading and writing the widgets\<close>

lemma isSelected_setEnabled [simp]: "isSelected (setEnabled c b w) c' = isSelected w c'"
  by (simp add: isSelected_def setEnabled_def)

lemma isEnabled_setEnabled [simp]:
  "isEnabled (setEnabled c b w) c' = (if c' = c then b else isEnabled w c')"
  by (simp add: isEnabled_def setEnabled_def)

lemma isSelected_setSelected [simp]:
  "isSelected (setSelected c b w) c' = (if c' = c then b else isSelected w c')"
  by (simp add: isSelected_def setSelected_def)

lemma isEnabled_setSelected [simp]: "isEnabled (setSelected c b w) c' = isEnabled w c'"
  by (simp add: isEnabled_def setSelected_def)

lemma isSelected_updateEnabledSettings [simp]:
  "isSelected (updateEnabledSettings w) c = isSelected w c"
  by (simp add: updateEnabledSettings_def Let_def)

lemma enabled_after_update:
  "isEnabled (updateEnabledSettings w) SeparateMat = (\<not> isSelected w SeparateBlock)"
  "isEnabled (updateEnabledSettings w) SeparateChunk = (\<not> isSelected w SeparateBlock)"
  "isEnabled (updateEnabledSettings w) OptimiseGeo = (\<not> isSelected w SeparateBlock)"
  "isEnabled (updateEnabledSettings w) SeparateBlockOccl = isSelected w SeparateBlock"
  "isEnabled (updateEnabledSettings w) ExportSeparateLight = False"
  "isEnabled (updateEnabledSettings w) SingleMat = False"
  "isEnabled (updateEnabledSettings w) SeparateMatOccl =
     (isSelected w SeparateMat \<and> \<not> isSelected w SeparateBlock)"
  by (simp_all add: updateEnabledSettings_def Let_def)

lemma enabled_other:
  "c \<notin> {SeparateMat, SeparateChunk, OptimiseGeo, SeparateBlockOccl, ExportSeparateLight, SingleMat, SeparateMatOccl}
   \<Longrightarrow> isEnabled (updateEnabledSettings w) c = isEnabled w c"
  by (simp add: updateEnabledSettings_def Let_def)

lemma isSelected_click [simp]:
  "isSelected (click c w) c' = (if c' = c \<and> isEnabled w c then \<not> isSelected w c else isSelected w c')"
  by (simp add: click_def)

lemma isEnabled_click [simp]: "isEnabled (click c w) c' = isEnabled w c'"
  by (simp add: click_def)

lemma saveSettings_window [simp]:
  "fst (saveSettings j (w, opts, p)) = updateEnabledSettings w"
  by (simp add: saveSettings_def Let_def)

lemma saveSettings_options [simp]:
  "fst (snd (saveSettings j (w, opts, p))) = updateOptions j (updateEnabledSettings w) opts"
  by (simp add: saveSettings_def Let_def)

lemma loadSettings_window [simp]:
  "fst (loadSettings j (w, opts, p)) = updateEnabledSettings (load_widgets j p w)"
  by (simp add: loadSettings_def Let_def)

lemma loadSettings_options [simp]:
  "fst (snd (loadSettings j (w, opts, p))) =
     updateOptions j (updateEnabledSettings (load_widgets j p w)) opts"
  by (simp add: loadSettings_def Let_def)

lemma on_action_window [simp]:
  "fst (on_action j g a) = updateEnabledSettings (perform a (fst g))"
  by (cases g) (simp add: on_action_def saveSettings_def Let_def)

lemma on_action_options [simp]:
  "fst (snd (on_action j g a)) =
     updateOptions j (updateEnabledSettings (perform a (fst g))) (fst (snd g))"
  by (cases g) (simp add: on_action_def saveSettings_def Let_def)

lemma updateOptions_flags:
  "objectPerMaterial (updateOptions j w opts) = (isSelected w SeparateMat \<and> isEnabled w SeparateMat)"
  "objectPerChunk (updateOptions j w opts) = (isSelected w SeparateChunk \<and> isEnabled w SeparateChunk)"
  "objectPerBlock (updateOptions j w opts) = isSelected w SeparateBlock"
  "optimiseGeometry (updateOptions j w opts) = (isSelected w OptimiseGeo \<and> isEnabled w OptimiseGeo)"
  "removeDuplicates (updateOptions j w opts) = isSelected w MergeVerticies"
  "exportThreads (updateOptions j w opts) = sp_value (spinnerThreads w)"
  "textureScale (updateOptions j w opts) = update_textureScale j w opts"
  "scale (updateOptions j w opts) =
     (case parseFloat j (textFieldMapScale w) of Some f \<Rightarrow> f | None \<Rightarrow> Finite 1)"
  by (simp_all add: updateOptions_def)

lemma isSelected_perform_Click [simp]:
  "isSelected (perform (Click c) w) c' = isSelected (click c w) c'"
  "isEnabled (perform (Click c) w) c' = isEnabled (click c w) c'"
  by (simp_all add: perform_def)

lemma isSelected_load_fold:
  "isSelected (foldl (load_checkbox p) w xs) c =
     (case [e \<leftarrow> rev xs. fst e = c] of
        [] \<Rightarrow> isSelected w c
      | e # _ \<Rightarrow> getBoolean p (fst (snd e)) (snd (snd e)))"
proof (induction xs rule: rev_induct)
  case Nil
  then show ?case by simp
next
  case (snoc x xs)
  then show ?case by (cases x) (simp add: load_checkbox_def)
qed

lemma isEnabled_load_checkbox: "isEnabled (load_checkbox p w e) c = isEnabled w c"
  by (cases e) (simp add: load_checkbox_def)

lemma isEnabled_load_fold [simp]:
  "isEnabled (foldl (load_checkbox p) w xs) c = isEnabled w c"
  by (induction xs arbitrary: w) (simp_all add: isEnabled_load_checkbox)

lemma chckbx_load_fold_cong:
  "chckbx w = chckbx w' \<Longrightarrow>
   chckbx (foldl (load_checkbox p) w xs) = chckbx (foldl (load_checkbox p) w' xs)"
proof (induction xs arbitrary: w w')
  case Nil
  then show ?case by simp
next
  case (Cons x xs)
  have "chckbx (load_checkbox p w x) = chckbx (load_checkbox p w' x)"
    using Cons.prems by (cases x) (simp add: load_checkbox_def setSelected_def)
  then have "chckbx (foldl (load_checkbox p) (load_checkbox p w x) xs) =
             chckbx (foldl (load_checkbox p) (load_checkbox p w' x) xs)"
    by (rule Cons.IH)
  then show ?case by simp
qed

lemma chckbx_load_offset_type [simp]: "chckbx (load_offset_type n w) = chckbx w"
  by (simp add: load_offset_type_def)

lemma chckbx_load_widgets:
  "chckbx (load_widgets j p w) = chckbx (foldl (load_checkbox p) w loaded_checkboxes)"
proof -
  have "chckbx (load_widgets j p w) =
        chckbx (foldl (load_checkbox p)
          (load_offset_type (getInt p ''OFFSET_TYPE'' 0)
             (w\<lparr>textFieldMapScale := floatToString j (getFloat p ''DEFAULT_SCALE'' (Finite 1))\<rparr>)
           \<lparr>txtX := intToString j (getInt p ''OFFSET_X'' 0),
             txtZ := intToString j (getInt p ''OFFSET_Z'' 0)\<rparr>) loaded_checkboxes)"
    by (simp add: load_widgets_def Let_def)
  also have "\<dots> = chckbx (foldl (load_checkbox p) w loaded_checkboxes)"
    by (rule chckbx_load_fold_cong) simp
  finally show ?thesis .
qed

lemma isSelected_load_widgets:
  "isSelected (load_widgets j p w) c =
     (case [e \<leftarrow> rev loaded_checkboxes. fst e = c] of
        [] \<Rightarrow> isSelected w c
      | e # _ \<Rightarrow> getBoolean p (fst (snd e)) (snd (snd e)))"
  using isSelected_load_fold [of p w loaded_checkboxes c]
  by (simp add: isSelected_def chckbx_load_widgets)

lemma isEnabled_load_widgets [simp]:
  "isEnabled (load_widgets j p w) c = isEnabled w c"
  using isEnabled_load_fold [of p w loaded_checkboxes c]
  by (simp add: isEnabled_def chckbx_load_widgets)

lemma new_window_flags [simp]:
  "isSelected newExportWindow c = False" "isEnabled newExportWindow c = True"
  by (simp_all add: newExportWindow_def isSelected_def isEnabled_def)



lemma load_defaults:
  "isSelected (load_widgets j Map.empty newExportWindow) SeparateMat = False"
  "isSelected (load_widgets j Map.empty newExportWindow) SeparateChunk = False"
  "isSelected (load_widgets j Map.empty newExportWindow) SeparateBlock = False"
  "isSelected (load_widgets j Map.empty newExportWindow) MergeVerticies = False"
  by (simp_all add: isSelected_load_widgets loaded_checkboxes_def getBoolean_def)


subsection \<open>Grouping policies\<close>

text \<open>
  C2. What the window enforces between the grouping policies: per-block grouping
  switches the other two off. When the per-block box is selected, after
  \<open>updateEnabledSettings\<close> and \<open>updateOptions\<close> (the pair that \<open>loadSettings\<close> and
  \<open>saveSettings\<close> run) both \<open>objectPerMaterial\<close> and \<open>objectPerChunk\<close> are false; when
  it is not selected, each of the two flags is the selection of its own check box, and
  nothing makes per-material and per-chunk exclude each other.
\<close>

theorem per_block_disables_material_and_chunk:
  "(isSelected w SeparateBlock \<longrightarrow>
      \<not> objectPerMaterial (updateOptions j (updateEnabledSettings w) opts) \<and>
      \<not> objectPerChunk (updateOptions j (updateEnabledSettings w) opts)) \<and>
   (\<not> isSelected w SeparateBlock \<longrightarrow>
      objectPerMaterial (updateOptions j (updateEnabledSettings w) opts) = isSelected w SeparateMat \<and>
      objectPerChunk (updateOptions j (updateEnabledSettings w) opts) = isSelected w SeparateChunk)"
  by (simp add: updateOptions_flags enabled_after_update)

theorem per_block_disables_material_and_chunk_witness:
  "isSelected window_block SeparateBlock \<and>
   \<not> objectPerMaterial (updateOptions small_jdk (updateEnabledSettings window_block) options_0) \<and>
   \<not> objectPerChunk (updateOptions small_jdk (updateEnabledSettings window_block) options_0) \<and>
   \<not> isSelected window_both SeparateBlock \<and>
   objectPerMaterial (updateOptions small_jdk (updateEnabledSettings window_both) options_0) \<and>
   objectPerChunk (updateOptions small_jdk (updateEnabledSettings window_both) options_0)"
  using per_block_disables_material_and_chunk [of window_block small_jdk options_0]
    per_block_disables_material_and_chunk [of window_both small_jdk options_0]
  by (simp add: window_block_def window_both_def)

text \<open>
  A fresh window with empty preferences, in which the user ticks the per-material box and
  then the per-chunk box: after the second \<open>saveSettings\<close> both flags are true.
\<close>

theorem material_and_chunk_both_true:
  "objectPerMaterial (fst (snd (session small_jdk options_0 Map.empty
      [Click SeparateMat, Click SeparateChunk]))) \<and>
   objectPerChunk (fst (snd (session small_jdk options_0 Map.empty
      [Click SeparateMat, Click SeparateChunk])))"
  by (simp add: session_def updateOptions_flags enabled_after_update load_defaults)

text \<open>
  C3. Per-block grouping is incompatible with optimize-geometry: when the per-block box
  is selected, after \<open>updateEnabledSettings\<close> and \<open>updateOptions\<close> the flag
  \<open>optimiseGeometry\<close> is false. The flag \<open>removeDuplicates\<close> is the selection of the
  merge-vertices box, whatever the grouping.
\<close>

theorem per_block_disables_optimise:
  assumes "isSelected w SeparateBlock"
  shows "\<not> optimiseGeometry (updateOptions j (updateEnabledSettings w) opts) \<and>
         removeDuplicates (updateOptions j (updateEnabledSettings w) opts) =
           isSelected w MergeVerticies"
  using assms by (simp add: updateOptions_flags enabled_after_update)

theorem per_block_disables_optimise_witness:
  "isSelected window_block SeparateBlock \<and>
   \<not> optimiseGeometry (updateOptions small_jdk (updateEnabledSettings window_block) options_0) \<and>
   removeDuplicates (updateOptions small_jdk (updateEnabledSettings window_block) options_0)"
proof -
  have b: "isSelected window_block SeparateBlock"
    by (simp add: window_block_def)
  from per_block_disables_optimise [OF b, of small_jdk options_0] b show ?thesis
    by (simp add: window_block_def)
qed

text \<open>
  A fresh window with empty preferences, in which the user ticks the per-block box and
  then the merge-vertices box: per-block grouping is on and \<open>removeDuplicates\<close> is true.
\<close>

theorem per_block_with_merged_vertices:
  "objectPerBlock (fst (snd (session small_jdk options_0 Map.empty
      [Click SeparateBlock, Click MergeVerticies]))) \<and>
   removeDuplicates (fst (snd (session small_jdk options_0 Map.empty
      [Click SeparateBlock, Click MergeVerticies])))"
  by (simp add: session_def updateOptions_flags enabled_after_update enabled_other load_defaults)

subsection \<open>Thread count\<close>

lemma foldl_invariant:
  assumes "P g" and "\<And>g a. P g \<Longrightarrow> P (f g a)"
  shows "P (foldl f g as)"
  using assms(1) by (induction as arbitrary: g) (simp_all add: assms(2))

lemma spinnerThreads_setEnabled [simp]: "spinnerThreads (setEnabled c b w) = spinnerThreads w"
  by (simp add: setEnabled_def)

lemma cboxTexScale_setEnabled [simp]: "cboxTexScale (setEnabled c b w) = cboxTexScale w"
  by (simp add: setEnabled_def)

lemma textFieldMapScale_setEnabled [simp]:
  "textFieldMapScale (setEnabled c b w) = textFieldMapScale w"
  by (simp add: setEnabled_def)

lemma spinnerThreads_updateEnabledSettings [simp]:
  "spinnerThreads (updateEnabledSettings w) = spinnerThreads w"
  by (simp add: updateEnabledSettings_def Let_def)

lemma cboxTexScale_updateEnabledSettings [simp]:
  "cboxTexScale (updateEnabledSettings w) = cboxTexScale w"
  by (simp add: updateEnabledSettings_def Let_def)

lemma textFieldMapScale_updateEnabledSettings [simp]:
  "textFieldMapScale (updateEnabledSettings w) = textFieldMapScale w"
  by (simp add: updateEnabledSettings_def Let_def)

lemma load_checkbox_others:
  "spinnerThreads (load_checkbox p w e) = spinnerThreads w"
  "cboxTexScale (load_checkbox p w e) = cboxTexScale w"
  by (cases e, simp add: load_checkbox_def setSelected_def)+

lemma load_fold_others:
  "spinnerThreads (foldl (load_checkbox p) w xs) = spinnerThreads w"
  "cboxTexScale (foldl (load_checkbox p) w xs) = cboxTexScale w"
  by (induction xs arbitrary: w) (simp_all add: load_checkbox_others)

lemma load_offset_type_others [simp]:
  "spinnerThreads (load_offset_type n w) = spinnerThreads w"
  "cboxTexScale (load_offset_type n w) = cboxTexScale w"
  by (simp_all add: load_offset_type_def)

lemma spinnerThreads_load_widgets:
  "spinnerThreads (load_widgets j p w) =
     setValue (getInt p ''EXPORT_THREADS'' 8) (spinnerThreads w)"
  by (simp add: load_widgets_def Let_def load_fold_others)

lemma cboxTexScale_load_widgets:
  "cboxTexScale (load_widgets j p w) =
     setSelectedItem (doubleToString j (getDouble p ''TEXTURE_SCALE_ID'' (Finite 1)))
       (cboxTexScale w)"
  by (simp add: load_widgets_def Let_def load_fold_others)

lemma spinner_steps_within:
  "spinner_within m \<Longrightarrow> spinner_within (spin_up m)"
  "spinner_within m \<Longrightarrow> spinner_within (spin_down m)"
  "spinner_within m \<Longrightarrow> spinner_within (spin_commit v m)"
  by (simp_all add: spinner_within_def spin_up_def spin_down_def spin_commit_def
        getNextValue_def getPreviousValue_def incrValue_def setValue_def Let_def)

lemma spinner_within_perform:
  "spinner_within (spinnerThreads w) \<Longrightarrow> spinner_within (spinnerThreads (perform a w))"
  by (cases a) (simp_all add: perform_def click_def setSelected_def spinner_steps_within)

lemma threads_inv_step: "threads_inv g \<Longrightarrow> threads_inv (on_action j g a)"
  by (simp add: threads_inv_def updateOptions_flags spinner_within_perform)

lemma threads_inv_start:
  assumes "1 \<le> getInt p ''EXPORT_THREADS'' 8" and "getInt p ''EXPORT_THREADS'' 8 \<le> 512"
  shows "threads_inv (loadSettings j (newExportWindow, opts, p))"
proof -
  have "spinner_within (setValue (getInt p ''EXPORT_THREADS'' 8) (spinnerThreads newExportWindow))"
    using assms by (simp add: spinner_within_def setValue_def newExportWindow_def)
  then show ?thesis
    by (simp add: threads_inv_def updateOptions_flags spinnerThreads_load_widgets)
qed

lemma saveSettings_stored_threads:
  "getInt (snd (snd (saveSettings j (w, opts, p)))) ''EXPORT_THREADS'' 8 =
     exportThreads (updateOptions j (updateEnabledSettings w) opts)"
  by (simp add: saveSettings_def Let_def getInt_def)

lemma on_action_stored_threads:
  "getInt (snd (snd (on_action j g a))) ''EXPORT_THREADS'' 8 = exportThreads (fst (snd (on_action j g a)))"
  by (cases g) (simp add: on_action_def saveSettings_stored_threads)

text \<open>
  C6. The thread count is meant to stay within 1 to 512, and the path that loads the
  stored preference does not keep it there: \<open>loadSettings\<close> puts the stored
  \<open>EXPORT_THREADS\<close> value into the spinner with \<open>setValue\<close>, which does not look at the
  bounds of the spinner's model, and \<open>updateOptions\<close> copies the spinner's value. A
  preference node that holds 1000 yields 1000 export threads.
\<close>

theorem exportThreads_from_stored_preference:
  "exportThreads (fst (snd (session small_jdk options_0
      [''EXPORT_THREADS'' \<mapsto> PInt 1000] []))) = 1000"
  by (simp add: session_def updateOptions_flags spinnerThreads_load_widgets setValue_def getInt_def)

text \<open>
  The other paths keep the bounds. In every session that starts from a preference node
  whose \<open>EXPORT_THREADS\<close> entry is absent or within 1 to 512, whatever the user does,
  the thread count stays within 1 to 512, and so does the value that \<open>saveSettings\<close>
  stores: the window itself never writes a value outside the bounds.
\<close>

lemma exportThreads_in_range:
  assumes "stored_threads_ok p"
  shows "1 \<le> exportThreads (fst (snd (session j opts p as))) \<and>
         exportThreads (fst (snd (session j opts p as))) \<le> 512"
proof -
  from assms have a: "1 \<le> getInt p ''EXPORT_THREADS'' 8" "getInt p ''EXPORT_THREADS'' 8 \<le> 512"
    by (simp_all add: stored_threads_ok_def)
  have "threads_inv (session j opts p as)"
    unfolding session_def
    by (rule foldl_invariant) (simp_all add: threads_inv_start a threads_inv_step)
  then show ?thesis by (simp add: threads_inv_def spinner_within_def)
qed

lemma stored_threads_stay_ok:
  assumes "stored_threads_ok p"
  shows "stored_threads_ok (snd (snd (session j opts p as)))"
proof (cases as rule: rev_cases)
  case Nil
  then show ?thesis using assms by (simp add: session_def loadSettings_def Let_def)
next
  case (snoc bs a)
  have "session j opts p as = on_action j (session j opts p bs) a"
    by (simp add: session_def snoc)
  moreover have "1 \<le> exportThreads (fst (snd (session j opts p as))) \<and>
                 exportThreads (fst (snd (session j opts p as))) \<le> 512"
    by (rule exportThreads_in_range [OF assms])
  ultimately show ?thesis
    by (simp add: stored_threads_ok_def on_action_stored_threads)
qed

lemma exportThreads_in_range_example:
  "stored_threads_ok Map.empty \<and>
   1 \<le> exportThreads (fst (snd (session small_jdk options_0 Map.empty [SpinType 600, SpinUp]))) \<and>
   exportThreads (fst (snd (session small_jdk options_0 Map.empty [SpinType 600, SpinUp]))) \<le> 512"
proof -
  have s: "stored_threads_ok Map.empty"
    by (simp add: stored_threads_ok_def getInt_def)
  from exportThreads_in_range [OF s, of small_jdk options_0 "[SpinType 600, SpinUp]"] s
  show ?thesis by simp
qed

subsection \<open>Texture scale\<close>

lemma strip_x_items:
  "strip_x ''1x'' = ''1''" "strip_x ''2x'' = ''2''" "strip_x ''4x'' = ''4''"
  "strip_x ''8x'' = ''8''" "strip_x ''16x'' = ''16''"
  by (simp_all add: strip_x_def)

lemma update_textureScale_items:
  assumes "reads_scales j" and "cbox_selected (cboxTexScale w) \<in> set texScaleItems"
  shows "update_textureScale j w opts \<in> scales"
  using assms
  by (auto simp: update_textureScale_def texScaleItems_def reads_scales_def scales_def
        strip_x_items Let_def)

lemma setSelectedIndex_keeps:
  assumes "cbox_items c = texScaleItems" and "cbox_selected c \<in> set texScaleItems"
  shows "cbox_items (setSelectedIndex i c) = texScaleItems \<and>
         cbox_selected (setSelectedIndex i c) \<in> set texScaleItems"
  using assms by (auto simp: setSelectedIndex_def)

lemma setSelectedItem_keeps:
  assumes "cbox_items c = texScaleItems" and "cbox_selected c \<in> set texScaleItems"
  shows "cbox_items (setSelectedItem x c) = texScaleItems \<and>
         cbox_selected (setSelectedItem x c) \<in> set texScaleItems"
  using assms by (auto simp: setSelectedItem_def)

lemma combo_perform:
  assumes "cbox_items (cboxTexScale w) = texScaleItems"
    and "cbox_selected (cboxTexScale w) \<in> set texScaleItems"
  shows "cbox_items (cboxTexScale (perform a w)) = texScaleItems \<and>
         cbox_selected (cboxTexScale (perform a w)) \<in> set texScaleItems"
proof (cases a)
  case (ChooseTexScale i)
  then show ?thesis using setSelectedIndex_keeps [OF assms] by (simp add: perform_def)
qed (use assms in \<open>simp_all add: perform_def click_def setSelected_def\<close>)

lemma combo_inv_step:
  assumes "reads_scales j" and "combo_inv g"
  shows "combo_inv (on_action j g a)"
proof -
  have c: "cbox_items (cboxTexScale (perform a (fst g))) = texScaleItems \<and>
           cbox_selected (cboxTexScale (perform a (fst g))) \<in> set texScaleItems"
    using assms(2) by (intro combo_perform) (simp_all add: combo_inv_def)
  then have "update_textureScale j (updateEnabledSettings (perform a (fst g))) (fst (snd g)) \<in> scales"
    by (intro update_textureScale_items [OF assms(1)]) simp
  with c show ?thesis by (simp add: combo_inv_def updateOptions_flags)
qed

lemma combo_inv_start:
  assumes "reads_scales j"
  shows "combo_inv (loadSettings j (newExportWindow, opts, p))"
proof -
  have n: "cbox_items (cboxTexScale newExportWindow) = texScaleItems"
    "cbox_selected (cboxTexScale newExportWindow) \<in> set texScaleItems"
    by (simp_all add: newExportWindow_def texScaleItems_def)
  have c: "cbox_items (cboxTexScale (load_widgets j p newExportWindow)) = texScaleItems \<and>
           cbox_selected (cboxTexScale (load_widgets j p newExportWindow)) \<in> set texScaleItems"
    unfolding cboxTexScale_load_widgets by (rule setSelectedItem_keeps [OF n])
  then have "update_textureScale j (updateEnabledSettings (load_widgets j p newExportWindow)) opts
               \<in> scales"
    by (intro update_textureScale_items [OF assms]) simp
  with c show ?thesis by (simp add: combo_inv_def updateOptions_flags)
qed

lemma read_numeral_values:
  "read_numeral ''1'' = Some 1" "read_numeral ''2'' = Some 2" "read_numeral ''4'' = Some 4"
  "read_numeral ''8'' = Some 8" "read_numeral ''16'' = Some 16"
  by (simp_all add: read_numeral_def digit_value_def)

lemma reads_scales_small_jdk: "reads_scales small_jdk"
  by (simp add: reads_scales_def small_jdk_def read_numeral_values)

text \<open>
  C8. The texture pre-scale factor is one of 1, 2, 4, 8 and 16: in every session, for
  every preference node and every sequence of user actions, the combo box offers exactly
  the items 1x, 2x, 4x, 8x and 16x, and the configured \<open>textureScale\<close> is one of the five
  factors. The platform's \<open>Double.parseDouble\<close> is assumed to read the five numerals as
  the numbers they denote.
\<close>

theorem textureScale_in_scales:
  assumes "reads_scales j"
  shows "cbox_items (cboxTexScale (fst (session j opts p as))) =
           [''1x'', ''2x'', ''4x'', ''8x'', ''16x''] \<and>
         textureScale (fst (snd (session j opts p as))) \<in>
           {Finite 1, Finite 2, Finite 4, Finite 8, Finite 16}"
proof -
  have "combo_inv (session j opts p as)"
    unfolding session_def
    by (rule foldl_invariant) (simp_all add: combo_inv_start assms combo_inv_step)
  then show ?thesis by (simp add: combo_inv_def scales_def texScaleItems_def)
qed

theorem textureScale_in_scales_witness:
  "reads_scales small_jdk \<and>
   textureScale (fst (snd (session small_jdk options_0 Map.empty [ChooseTexScale 3]))) \<in>
     {Finite 1, Finite 2, Finite 4, Finite 8, Finite 16}"
  using textureScale_in_scales [of small_jdk options_0 Map.empty "[ChooseTexScale 3]"]
    reads_scales_small_jdk by simp

subsection \<open>Map scale\<close>

text \<open>
  C9. For every text in the map-scale field, \<open>updateOptions\<close> sets the configured scale
  to the parsed value when \<open>Float.parseFloat\<close> accepts the text, and to 1.0 when it throws
  \<open>NumberFormatException\<close>; the previous scale is never kept.
\<close>

theorem updateOptions_scale:
  "scale (updateOptions j w opts) =
     (case parseFloat j (textFieldMapScale w) of Some f \<Rightarrow> f | None \<Rightarrow> Finite 1)"
  by (simp add: updateOptions_def)

section \<open>Properties of the settings window\<close>

lemma add_all_append: "add_all acc packs = acc @ packs"
  unfolding add_all_def by (induction packs arbitrary: acc) simp_all

text \<open>
  C4. \<open>updateResourcePacks\<close> rebuilds the list as the user's packs in their order,
  followed by the Minecraft jar as the last entry when the use-default option is enabled
  and a jar was found; when the option is disabled, or no jar was found, the list is
  exactly the user's packs.
\<close>

theorem updateResourcePacks_list:
  "resourcePacks (updateResourcePacks jar st opts) =
     listPacks st @
       (if chckbxUsePackDefault st then (case jar of Some mc \<Rightarrow> [mc] | None \<Rightarrow> []) else [])"
  by (simp add: updateResourcePacks_def add_all_append Let_def split: option.split)

text \<open>
  With the option enabled and no Minecraft jar on the machine, nothing is appended.
\<close>

theorem updateResourcePacks_without_jar:
  "chckbxUsePackDefault settings_1 \<and>
   resourcePacks (updateResourcePacks None settings_1 options_0) = listPacks settings_1"
  by (simp add: updateResourcePacks_def add_all_append settings_1_def Let_def)

section \<open>Properties of the block models\<close>

text \<open>
  C7. The model \<open>None\<close> generates no geometry: for every chunk processor, boundary
  delegate, coordinate, block data and biome, \<open>addModel\<close> leaves the chunk processor,
  and with it the geometry collected so far, as it was.
\<close>

theorem None_addModel_nothing: "None_addModel obj chunks x y z data biome = obj"
  by (simp add: None_addModel_def)

end
